theory Spec2Isabelle
  imports Complex_Main "HOL-Library.Word"
begin

section \<open>Values of the host language\<close>

text \<open>
  Text typed by the operator (titles, descriptions, captions, tags) is a JavaScript string:
  a sequence of UTF-16 code units. Identifiers (document ids, account ids, tokens, remote
  post ids, ISO dates) are only compared and tested for emptiness, so they are plain
  \<open>string\<close>s.
\<close>

type_synonym jsstring = "16 word list"

text \<open>The code units that \<open>String.prototype.trim\<close> strips: WhiteSpace and LineTerminator.\<close>

definition isWhiteSpace :: "16 word \<Rightarrow> bool" where
  "isWhiteSpace c =
     (c = 9 \<or> c = 10 \<or> c = 11 \<or> c = 12 \<or> c = 13 \<or> c = 32 \<or> c = 160 \<or> c = 5760
      \<or> (8192 \<le> c \<and> c \<le> 8202) \<or> c = 8232 \<or> c = 8233 \<or> c = 8239 \<or> c = 8287
      \<or> c = 12288 \<or> c = 65279)"

definition trim :: "jsstring \<Rightarrow> jsstring" where
  "trim s = rev (dropWhile isWhiteSpace (rev (dropWhile isWhiteSpace s)))"

text \<open>\<open>Array.prototype.join\<close> and \<open>String.prototype.split\<close> on a one-unit separator.\<close>

fun join :: "jsstring \<Rightarrow> jsstring list \<Rightarrow> jsstring" where
  "join sep [] = []"
| "join sep [x] = x"
| "join sep (x # y # ys) = x @ sep @ join sep (y # ys)"

fun splitOn :: "16 word \<Rightarrow> jsstring \<Rightarrow> jsstring list" where
  "splitOn sep [] = [[]]"
| "splitOn sep (c # cs) =
     (if c = sep then [] # splitOn sep cs
      else (case splitOn sep cs of [] \<Rightarrow> [[c]] | x # xs \<Rightarrow> (c # x) # xs))"

text \<open>
  Numbers. A video element reports its pixel width and height as unsigned integers and its
  duration as a double, which is a finite real, \<open>NaN\<close> or \<open>+Infinity\<close>. The quotient
  \<open>width / height\<close> is \<open>NaN\<close> for \<open>0 / 0\<close> and \<open>Infinity\<close> for a positive width over \<open>0\<close>.
  For pixel dimensions the double quotient compares with the literals \<open>0.5\<close>, \<open>0.85\<close>,
  \<open>0.9\<close> and \<open>1.1\<close> exactly as the rational quotient does: a quotient of two 32-bit
  integers that differs from one of these decimals differs from it by at least
  \<open>1 / (20 * 2^32)\<close>, far more than the rounding error of a double near 1. The
  comparisons with \<open>3\<close>, \<open>60\<close> and \<open>3600\<close> are exact.
\<close>

datatype number = NaN | Infinity | Finite real

definition truthy :: "number \<Rightarrow> bool" where
  "truthy n = (case n of NaN \<Rightarrow> False | Infinity \<Rightarrow> True | Finite r \<Rightarrow> r \<noteq> 0)"

definition num_ge :: "number \<Rightarrow> real \<Rightarrow> bool" where
  "num_ge n c = (case n of NaN \<Rightarrow> False | Infinity \<Rightarrow> True | Finite r \<Rightarrow> c \<le> r)"

definition num_le :: "number \<Rightarrow> real \<Rightarrow> bool" where
  "num_le n c = (case n of NaN \<Rightarrow> False | Infinity \<Rightarrow> False | Finite r \<Rightarrow> r \<le> c)"

definition num_lt :: "number \<Rightarrow> real \<Rightarrow> bool" where
  "num_lt n c = (case n of NaN \<Rightarrow> False | Infinity \<Rightarrow> False | Finite r \<Rightarrow> r < c)"

definition js_div :: "nat \<Rightarrow> nat \<Rightarrow> number" where
  "js_div w h = (if h = 0 then (if w = 0 then NaN else Infinity) else Finite (real w / real h))"

text \<open>Truthiness of an optional string: \<open>undefined\<close> and \<open>''\<close> are falsy.\<close>

definition present :: "'a list option \<Rightarrow> bool" where
  "present s = (case s of None \<Rightarrow> False | Some x \<Rightarrow> x \<noteq> [])"


section \<open>Data model (types.ts)\<close>

datatype Platform = Instagram | Tiktok | Kwai | Youtube | Linkedin

datatype PostType = Reel | Story | Feed | Shorts | Video

datatype VideoFormat = Horizontal | Vertical | Square

datatype VideoStatus =
  Pending | Ready | Approved | Processing | Published | Dismissed | Uploading | Error | Scheduled

datatype PrivacyStatus = Public | Unlisted | Private

text \<open>An optional identifier that the code also stores as an explicit \<open>null\<close>.\<close>

datatype nullable_id = Absent | Null | Given string

definition orNull :: "nullable_id \<Rightarrow> nullable_id" where
  \<comment> \<open>\<open>x || null\<close>\<close>
  "orNull x = (case x of Given s \<Rightarrow> (if s = [] then Null else Given s) | _ \<Rightarrow> Null)"

record ProjectStats =
  total :: nat
  pendingReview :: nat
  approved :: nat
  scheduledOrPublished :: nat
  discarded :: nat

record Project =
  projId :: string
  videoCount :: nat
  stats :: "ProjectStats option"

record Integration =
  integId :: string
  integName :: string
  integPlatform :: Platform
  accessToken :: "string option"

record ConfigMetadata =
  title :: "jsstring option"
  caption :: "jsstring option"
  location :: "jsstring option"
  collaborators :: "jsstring option"
  tags :: "jsstring option"
  playlistId :: nullable_id
  categoryId :: "string option"
  chapters :: "jsstring option"
  privacyStatus :: "PrivacyStatus option"

record DistributionConfig =
  platform :: Platform
  accountId :: string
  postType :: PostType
  externalId :: "string option"
  metadata :: ConfigMetadata

record YouTubeMetadata =
  ytTitle :: jsstring
  ytDescription :: jsstring
  ytTags :: "jsstring list"
  ytCategoryId :: string
  ytPlaylistId :: nullable_id
  ytPrivacyStatus :: PrivacyStatus

record SocialMetadata =
  smCaption :: jsstring

text \<open>
  The fields of a video document that the workflow reads or writes. The other fields of
  \<open>VideoAsset\<close> (owner, url, thumbnail, file size, creation time, transcription, client
  labels) are never touched by the operations below.
\<close>

record VideoAsset =
  videoId :: string
  projectId :: "string option"
  videoTitle :: jsstring
  storagePath :: string
  format :: VideoFormat
  status :: VideoStatus
  scheduledDate :: "string option"
  distributionConfig :: "DistributionConfig list option"
  platforms :: "Platform list option"
  youtubeMetadata :: "YouTubeMetadata option"
  instagramMetadata :: "SocialMetadata option"
  tiktokMetadata :: "SocialMetadata option"


section \<open>The document store and videoService.ts\<close>

text \<open>
  The two collections, each a list of documents carrying their id. \<open>updateDoc\<close> rewrites
  the named fields of the document with the given id and throws when there is none.
\<close>

record Store =
  videos :: "VideoAsset list"
  projects :: "Project list"

datatype error = NotFound | FetchFailed | AdapterError string

definition getDoc :: "Store \<Rightarrow> string \<Rightarrow> VideoAsset option" where
  "getDoc s vid = find (\<lambda>v. videoId v = vid) (videos s)"

definition updateDoc :: "Store \<Rightarrow> string \<Rightarrow> (VideoAsset \<Rightarrow> VideoAsset) \<Rightarrow> error + Store" where
  "updateDoc s vid f =
     (case getDoc s vid of
        None \<Rightarrow> Inl NotFound
      | Some _ \<Rightarrow> Inr (s\<lparr>videos := map (\<lambda>v. if videoId v = vid then f v else v) (videos s)\<rparr>))"

definition projectVideos :: "Store \<Rightarrow> string \<Rightarrow> VideoAsset list" where
  \<comment> \<open>\<open>query(collection(db, VIDEOS_COLLECTION), where("projectId", "==", projectId))\<close>\<close>
  "projectVideos s pid = filter (\<lambda>v. projectId v = Some pid) (videos s)"

definition countVideo :: "ProjectStats \<Rightarrow> VideoAsset \<Rightarrow> ProjectStats" where
  "countVideo st v =
     (if status v = Dismissed then st\<lparr>discarded := discarded st + 1\<rparr>
      else if status v = Published \<or> status v = Scheduled
        then st\<lparr>scheduledOrPublished := scheduledOrPublished st + 1\<rparr>
      else if status v = Approved then st\<lparr>approved := approved st + 1\<rparr>
      else st\<lparr>pendingReview := pendingReview st + 1\<rparr>)"

definition computeStats :: "VideoAsset list \<Rightarrow> ProjectStats" where
  "computeStats vs =
     foldl countVideo
       \<lparr>total = length vs, pendingReview = 0, approved = 0, scheduledOrPublished = 0,
        discarded = 0\<rparr> vs"

definition findProject :: "Store \<Rightarrow> string \<Rightarrow> Project option" where
  "findProject s pid = find (\<lambda>p. projId p = pid) (projects s)"

definition recalculateProjectStats :: "Store \<Rightarrow> string \<Rightarrow> Store" where
  \<comment> \<open>A failed write (no such project) is caught and logged: the store stays as it is.\<close>
  "recalculateProjectStats s pid =
     (let st = computeStats (projectVideos s pid) in
      case findProject s pid of
        None \<Rightarrow> s
      | Some _ \<Rightarrow>
          s\<lparr>projects :=
              map (\<lambda>p. if projId p = pid then p\<lparr>videoCount := total st, stats := Some st\<rparr> else p)
                (projects s)\<rparr>)"

definition recalcForVideo :: "Store \<Rightarrow> VideoAsset option \<Rightarrow> Store" where
  \<comment> \<open>\<open>if (snap.exists() && snap.data().projectId) await recalculateProjectStats(...)\<close>\<close>
  "recalcForVideo s snap =
     (case snap of
        None \<Rightarrow> s
      | Some v \<Rightarrow>
          (case projectId v of
             None \<Rightarrow> s
           | Some pid \<Rightarrow> if pid = [] then s else recalculateProjectStats s pid))"

definition updateVideoPlatforms :: "Store \<Rightarrow> string \<Rightarrow> Platform list \<Rightarrow> error + Store" where
  "updateVideoPlatforms s vid ps = updateDoc s vid (\<lambda>v. v\<lparr>platforms := Some ps\<rparr>)"

definition updateVideoDistributionConfig ::
  "Store \<Rightarrow> string \<Rightarrow> DistributionConfig list \<Rightarrow> error + Store" where
  "updateVideoDistributionConfig s vid config =
     updateDoc s vid (\<lambda>v. v\<lparr>distributionConfig := Some config\<rparr>)"

definition setStatus :: "Store \<Rightarrow> string \<Rightarrow> VideoStatus \<Rightarrow> error + Store" where
  \<comment> \<open>The common body of \<open>approveVideo\<close>, \<open>dismissVideo\<close> and \<open>unapproveVideo\<close>.\<close>
  "setStatus s vid st =
     (case updateDoc s vid (\<lambda>v. v\<lparr>status := st\<rparr>) of
        Inl e \<Rightarrow> Inl e
      | Inr s' \<Rightarrow> Inr (recalcForVideo s' (getDoc s' vid)))"

definition approveVideo :: "Store \<Rightarrow> string \<Rightarrow> error + Store" where
  "approveVideo s vid = setStatus s vid Approved"

definition dismissVideo :: "Store \<Rightarrow> string \<Rightarrow> error + Store" where
  "dismissVideo s vid = setStatus s vid Dismissed"

definition unapproveVideo :: "Store \<Rightarrow> string \<Rightarrow> error + Store" where
  "unapproveVideo s vid = setStatus s vid Pending"

text \<open>\<open>now\<close> is the value of \<open>new Date().toISOString()\<close> at the call.\<close>

definition markVideoAsProcessing ::
  "string \<Rightarrow> Store \<Rightarrow> string \<Rightarrow> DistributionConfig list \<Rightarrow> string option \<Rightarrow> error + Store" where
  "markVideoAsProcessing now s vid configs sched =
     (let newStatus = (if present sched then Scheduled else Published);
          date = (if present sched then sched else Some now)
      in case updateDoc s vid
           (\<lambda>v. v\<lparr>status := newStatus, platforms := Some (map platform configs),
                  distributionConfig := Some configs, scheduledDate := date\<rparr>) of
           Inl e \<Rightarrow> Inl e
         | Inr s' \<Rightarrow> Inr (recalcForVideo s' (getDoc s' vid)))"

definition stripExternalId :: "DistributionConfig \<Rightarrow> DistributionConfig" where
  \<comment> \<open>\<open>const { externalId, ...rest } = c; return rest\<close>\<close>
  "stripExternalId c = c\<lparr>externalId := None\<rparr>"

definition cancelVideoScheduling :: "Store \<Rightarrow> string \<Rightarrow> error + Store" where
  "cancelVideoScheduling s vid =
     (let snap = getDoc s vid;
          cleaned = (case snap of
                       None \<Rightarrow> []
                     | Some v \<Rightarrow>
                         map stripExternalId
                           (case distributionConfig v of None \<Rightarrow> [] | Some cs \<Rightarrow> cs))
      in case updateDoc s vid
           (\<lambda>v. v\<lparr>status := Approved, scheduledDate := None,
                  distributionConfig := Some cleaned\<rparr>) of
           Inl e \<Rightarrow> Inl e
         | Inr s' \<Rightarrow> Inr (recalcForVideo s' snap))"


section \<open>Platform adapters (youtubeService.ts)\<close>

text \<open>
  The remote platform is an external collaborator: its state is a value of an arbitrary
  type \<open>'w\<close>, and each call returns its answer together with the new state.
  \<open>uploadVideoToYouTube\<close> returns the remote id or throws an error with a message;
  \<open>addVideoToPlaylist\<close>'s errors are swallowed by its only caller; \<open>fetchDelete\<close> is the
  HTTP \<open>DELETE\<close> request that \<open>deleteVideoFromYouTube\<close> sends, answered with a status and
  a body, or failing in the network.
\<close>

datatype fetchResult = NetworkFailure | HttpResponse nat string

text \<open>The decimal digits of a status code, as a template literal prints it.\<close>

function showNat :: "nat \<Rightarrow> string" where
  "showNat n =
     (if n < 10 then [''0123456789'' ! n]
      else showNat (n div 10) @ [''0123456789'' ! (n mod 10)])"
  by pat_completeness auto
termination
  by (relation "measure (\<lambda>n. n)") auto

declare showNat.simps [simp del]

record 'w YouTubeAdapter =
  uploadVideoToYouTube ::
    "'w \<Rightarrow> string \<Rightarrow> string \<Rightarrow> YouTubeMetadata \<Rightarrow> string option \<Rightarrow> (string + string) \<times> 'w"
  addVideoToPlaylist :: "'w \<Rightarrow> string \<Rightarrow> string \<Rightarrow> string \<Rightarrow> 'w"
  fetchDelete :: "'w \<Rightarrow> string \<Rightarrow> string \<Rightarrow> fetchResult \<times> 'w"

definition deleteVideoFromYouTube ::
  "'w YouTubeAdapter \<Rightarrow> 'w \<Rightarrow> string \<Rightarrow> string \<Rightarrow> (error + unit) \<times> 'w" where
  "deleteVideoFromYouTube ad w token vid =
     (case fetchDelete ad w token vid of
        (NetworkFailure, w') \<Rightarrow> (Inl FetchFailed, w')
      | (HttpResponse code body, w') \<Rightarrow>
          if code = 404 then (Inr (), w')
          else if \<not> (200 \<le> code \<and> code \<le> 299)
            then (Inl (AdapterError
                        (''Failed to delete from YouTube ('' @ showNat code @ ''): '' @ body)),
                  w')
          else (Inr (), w'))"

definition findToken :: "Integration list \<Rightarrow> string \<Rightarrow> string option" where
  \<comment> \<open>\<open>integrations.find(i => i.id === accountId)\<close>, then \<open>integ.config.accessToken\<close> if truthy\<close>
  "findToken integrations acc =
     (case find (\<lambda>i. integId i = acc) integrations of
        None \<Rightarrow> None
      | Some i \<Rightarrow>
          (case accessToken i of
             None \<Rightarrow> None
           | Some t \<Rightarrow> if t = [] then None else Some t))"


section \<open>The video detail view (VideoDetailModal.tsx)\<close>

record ModalState =
  localVideo :: VideoAsset
  selectedPlatforms :: "Platform list"
  videoDimensions :: "(nat \<times> nat) option"
  videoDuration :: "number option"
  distributionConfigs :: "DistributionConfig list"
  ytData :: YouTubeMetadata
  igData :: SocialMetadata
  ttData :: SocialMetadata
  platformSettings :: "Platform \<Rightarrow> PostType"
  showApproveModal :: bool

definition defaultYt :: YouTubeMetadata where
  "defaultYt = \<lparr>ytTitle = [], ytDescription = [], ytTags = [], ytCategoryId = ''22'',
                 ytPlaylistId = Absent, ytPrivacyStatus = Public\<rparr>"

definition defaultSocial :: SocialMetadata where
  "defaultSocial = \<lparr>smCaption = []\<rparr>"

definition initialPlatformSettings :: "VideoAsset \<Rightarrow> Platform \<Rightarrow> PostType" where
  "initialPlatformSettings video p =
     (case p of
        Youtube \<Rightarrow> (if format video = Vertical then Shorts else Video)
      | Instagram \<Rightarrow> Reel
      | Tiktok \<Rightarrow> Reel
      | Kwai \<Rightarrow> Video
      | Linkedin \<Rightarrow> Video)"

definition initialState :: "VideoAsset \<Rightarrow> ModalState" where
  \<comment> \<open>the \<open>useState\<close> initial values\<close>
  "initialState video =
     \<lparr>localVideo = video,
      selectedPlatforms = (case platforms video of None \<Rightarrow> [] | Some ps \<Rightarrow> ps),
      videoDimensions = None,
      videoDuration = None,
      distributionConfigs = [],
      ytData = (case youtubeMetadata video of None \<Rightarrow> defaultYt | Some m \<Rightarrow> m),
      igData = (case instagramMetadata video of None \<Rightarrow> defaultSocial | Some m \<Rightarrow> m),
      ttData = (case tiktokMetadata video of None \<Rightarrow> defaultSocial | Some m \<Rightarrow> m),
      platformSettings = initialPlatformSettings video,
      showApproveModal = False\<rparr>"

definition syncVideoProp :: "ModalState \<Rightarrow> VideoAsset \<Rightarrow> ModalState" where
  \<comment> \<open>the effect "Sync state when video prop changes"\<close>
  "syncVideoProp st video =
     st\<lparr>localVideo := video,
        selectedPlatforms :=
          (case platforms video of None \<Rightarrow> selectedPlatforms st | Some ps \<Rightarrow> ps),
        ytData := (case youtubeMetadata video of None \<Rightarrow> ytData st | Some m \<Rightarrow> m),
        igData := (case instagramMetadata video of None \<Rightarrow> igData st | Some m \<Rightarrow> m),
        ttData := (case tiktokMetadata video of None \<Rightarrow> ttData st | Some m \<Rightarrow> m),
        distributionConfigs := (case distributionConfig video of None \<Rightarrow> [] | Some cs \<Rightarrow> cs),
        platformSettings :=
          (case distributionConfig video of
             None \<Rightarrow> platformSettings st
           | Some cs \<Rightarrow> foldl (\<lambda>ps c. ps(platform c := postType c)) (platformSettings st) cs)\<rparr>"

definition onUpdate :: "ModalState \<Rightarrow> VideoAsset \<Rightarrow> ModalState" where
  \<comment> \<open>The parent's \<open>updateVideoInState\<close> stores the updated asset as the selected video,
      which comes back as the \<open>video\<close> prop and runs the sync effect.\<close>
  "onUpdate st updated = syncVideoProp st updated"

definition getPlatformConfigs :: "ModalState \<Rightarrow> Platform \<Rightarrow> DistributionConfig list" where
  "getPlatformConfigs st p = filter (\<lambda>c. platform c = p) (distributionConfigs st)"

definition isAccountSelected :: "ModalState \<Rightarrow> Platform \<Rightarrow> string \<Rightarrow> bool" where
  "isAccountSelected st p acc =
     list_ex (\<lambda>c. platform c = p \<and> accountId c = acc) (distributionConfigs st)"

definition saveDistributionConfigs ::
  "ModalState \<Rightarrow> Store \<Rightarrow> DistributionConfig list \<Rightarrow> ModalState \<times> Store" where
  \<comment> \<open>When the store rejects the write, the statements after the \<open>await\<close> do not run.\<close>
  "saveDistributionConfigs st s configs =
     (let st1 = st\<lparr>distributionConfigs := configs\<rparr> in
      case updateVideoDistributionConfig s (videoId (localVideo st)) configs of
        Inl e \<Rightarrow> (st1, s)
      | Inr s' \<Rightarrow>
          (let updatedVideo = (localVideo st)\<lparr>distributionConfig := Some configs\<rparr>
           in (onUpdate (st1\<lparr>localVideo := updatedVideo\<rparr>) updatedVideo, s')))"

definition seedMetadata :: "ModalState \<Rightarrow> Platform \<Rightarrow> ConfigMetadata" where
  "seedMetadata st p =
     (if p = Youtube
      then \<lparr>title = Some (ytTitle (ytData st)),
            caption = Some (ytDescription (ytData st)),
            location = None, collaborators = None,
            tags = Some (join [44, 32] (ytTags (ytData st))),
            playlistId = orNull (ytPlaylistId (ytData st)),
            categoryId = Some (ytCategoryId (ytData st)),
            chapters = None, privacyStatus = None\<rparr>
      else \<lparr>title = None,
            caption = Some (if p = Instagram then smCaption (igData st) else smCaption (ttData st)),
            location = None, collaborators = None, tags = None, playlistId = Absent,
            categoryId = None, chapters = None, privacyStatus = None\<rparr>)"

definition newConfig :: "ModalState \<Rightarrow> Platform \<Rightarrow> string \<Rightarrow> DistributionConfig" where
  "newConfig st p acc =
     \<lparr>platform = p, accountId = acc, postType = platformSettings st p, externalId = None,
      metadata = seedMetadata st p\<rparr>"

definition toggleAccountSelection ::
  "ModalState \<Rightarrow> Store \<Rightarrow> Platform \<Rightarrow> string \<Rightarrow> ModalState \<times> Store" where
  "toggleAccountSelection st s p acc =
     (let newConfigs =
        (if isAccountSelected st p acc
         then filter (\<lambda>c. \<not> (platform c = p \<and> accountId c = acc)) (distributionConfigs st)
         else distributionConfigs st @ [newConfig st p acc])
      in saveDistributionConfigs st s newConfigs)"

definition updatePostTypeForPlatform ::
  "ModalState \<Rightarrow> Store \<Rightarrow> Platform \<Rightarrow> PostType \<Rightarrow> ModalState \<times> Store" where
  "updatePostTypeForPlatform st s p newType =
     (let st1 = st\<lparr>platformSettings := (platformSettings st)(p := newType)\<rparr>;
          newConfigs = map (\<lambda>c. if platform c = p then c\<lparr>postType := newType\<rparr> else c)
                         (distributionConfigs st)
      in saveDistributionConfigs st1 s newConfigs)"

definition isInstagramRatioValid :: "ModalState \<Rightarrow> bool" where
  "isInstagramRatioValid st =
     (case videoDimensions st of
        None \<Rightarrow> True
      | Some (w, h) \<Rightarrow> num_ge (js_div w h) 0.50 \<and> num_le (js_div w h) 0.85)"

definition isInstagramDurationValid :: "ModalState \<Rightarrow> bool" where
  "isInstagramDurationValid st =
     (case videoDuration st of
        None \<Rightarrow> True
      | Some d \<Rightarrow> if \<not> truthy d then True else num_ge d 3 \<and> num_le d 3600)"

definition isInstagramValid :: "ModalState \<Rightarrow> bool" where
  "isInstagramValid st = (isInstagramRatioValid st \<and> isInstagramDurationValid st)"

definition getYouTubeRuleType :: "ModalState \<Rightarrow> PostType option" where
  "getYouTubeRuleType st =
     (case videoDimensions st of
        None \<Rightarrow> None
      | Some (w, h) \<Rightarrow>
          (case videoDuration st of
             None \<Rightarrow> None
           | Some d \<Rightarrow>
               if \<not> truthy d then None
               else
                 (let ratio = js_div w h;
                      isSquare = (num_ge ratio 0.9 \<and> num_le ratio 1.1);
                      isVertical = num_lt ratio 0.9;
                      isShortDuration = num_lt d 60
                  in if (isSquare \<or> isVertical) \<and> isShortDuration then Some Shorts
                     else Some Video)))"

definition enforceYouTubeRules :: "ModalState \<Rightarrow> Store \<Rightarrow> ModalState \<times> Store" where
  \<comment> \<open>the effect "Enforce YouTube Rules Automatically", run when dimensions or duration change\<close>
  "enforceYouTubeRules st s =
     (case getYouTubeRuleType st of
        None \<Rightarrow> (st, s)
      | Some ruleType \<Rightarrow>
          if platformSettings st Youtube \<noteq> ruleType
          then updatePostTypeForPlatform st s Youtube ruleType
          else (st, s))"

definition onLoadedMetadata ::
  "ModalState \<Rightarrow> Store \<Rightarrow> nat \<Rightarrow> nat \<Rightarrow> number \<Rightarrow> ModalState \<times> Store" where
  \<comment> \<open>the video element's handler sets dimensions and duration; the effect follows\<close>
  "onLoadedMetadata st s w h d =
     enforceYouTubeRules (st\<lparr>videoDimensions := Some (w, h), videoDuration := Some d\<rparr>) s"

text \<open>Validation for approval: one boolean per platform and rule.\<close>

definition isYouTubeReady :: "ModalState \<Rightarrow> bool" where
  "isYouTubeReady st =
     (Youtube \<notin> set (selectedPlatforms st)
      \<or> (trim (ytTitle (ytData st)) \<noteq> [] \<and> trim (ytDescription (ytData st)) \<noteq> []))"

definition isInstagramReady :: "ModalState \<Rightarrow> bool" where
  "isInstagramReady st =
     (Instagram \<notin> set (selectedPlatforms st) \<or> trim (smCaption (igData st)) \<noteq> [])"

definition isTikTokReady :: "ModalState \<Rightarrow> bool" where
  "isTikTokReady st =
     (Tiktok \<notin> set (selectedPlatforms st) \<or> trim (smCaption (ttData st)) \<noteq> [])"

definition hasAccountForYoutube :: "ModalState \<Rightarrow> bool" where
  "hasAccountForYoutube st =
     (Youtube \<notin> set (selectedPlatforms st) \<or> length (getPlatformConfigs st Youtube) > 0)"

definition hasAccountForInstagram :: "ModalState \<Rightarrow> bool" where
  "hasAccountForInstagram st =
     (Instagram \<notin> set (selectedPlatforms st) \<or> length (getPlatformConfigs st Instagram) > 0)"

definition hasAccountForTikTok :: "ModalState \<Rightarrow> bool" where
  "hasAccountForTikTok st =
     (Tiktok \<notin> set (selectedPlatforms st) \<or> length (getPlatformConfigs st Tiktok) > 0)"

definition isAllReady :: "ModalState \<Rightarrow> bool" where
  "isAllReady st =
     (length (selectedPlatforms st) > 0
      \<and> isYouTubeReady st \<and> isInstagramReady st \<and> isTikTokReady st
      \<and> hasAccountForYoutube st \<and> hasAccountForInstagram st \<and> hasAccountForTikTok st)"

definition togglePlatformActive ::
  "ModalState \<Rightarrow> Store \<Rightarrow> Platform \<Rightarrow> bool \<Rightarrow> ModalState \<times> Store" where
  \<comment> \<open>A rejected write restores the previous selection (and alerts).\<close>
  "togglePlatformActive st s p isActive =
     (let newPlatforms =
        (if isActive
         then (if p \<in> set (selectedPlatforms st) then selectedPlatforms st
               else selectedPlatforms st @ [p])
         else filter (\<lambda>q. q \<noteq> p) (selectedPlatforms st))
      in case updateVideoPlatforms s (videoId (localVideo st)) newPlatforms of
           Inl e \<Rightarrow> (st, s)
         | Inr s' \<Rightarrow>
             (let updatedVideoAsset = (localVideo st)\<lparr>platforms := Some newPlatforms\<rparr>
              in (onUpdate (st\<lparr>selectedPlatforms := newPlatforms,
                               localVideo := updatedVideoAsset\<rparr>) updatedVideoAsset, s')))"

definition onYouTubeToggleClick :: "ModalState \<Rightarrow> Store \<Rightarrow> ModalState \<times> Store" where
  "onYouTubeToggleClick st s =
     togglePlatformActive st s Youtube (Youtube \<notin> set (selectedPlatforms st))"

definition onSocialToggleClick :: "ModalState \<Rightarrow> Store \<Rightarrow> Platform \<Rightarrow> ModalState \<times> Store" where
  \<comment> \<open>the toggle of the Instagram/TikTok form; \<open>subTab\<close> is the platform shown\<close>
  "onSocialToggleClick st s subTab =
     (if subTab = Instagram \<and> \<not> isInstagramValid st then (st, s)
      else togglePlatformActive st s subTab (subTab \<notin> set (selectedPlatforms st)))"

definition handleApproveClick :: "ModalState \<Rightarrow> ModalState" where
  "handleApproveClick st = (if isAllReady st then st\<lparr>showApproveModal := True\<rparr> else st)"

definition confirmApprove :: "ModalState \<Rightarrow> Store \<Rightarrow> ModalState \<times> Store" where
  \<comment> \<open>Errors are caught and logged; \<open>finally\<close> closes the confirmation.\<close>
  "confirmApprove st s =
     (case updateVideoDistributionConfig s (videoId (localVideo st)) (distributionConfigs st) of
        Inl e \<Rightarrow> (st\<lparr>showApproveModal := False\<rparr>, s)
      | Inr s1 \<Rightarrow>
          (case approveVideo s1 (videoId (localVideo st)) of
             Inl e \<Rightarrow> (st\<lparr>showApproveModal := False\<rparr>, s1)
           | Inr s2 \<Rightarrow>
               (let updated = (localVideo st)\<lparr>status := Approved,
                                 distributionConfig := Some (distributionConfigs st)\<rparr>
                in ((onUpdate (st\<lparr>localVideo := updated\<rparr>) updated)
                      \<lparr>showApproveModal := False\<rparr>, s2))))"


section \<open>Distribution (DistributionModal.tsx, DistributionView.tsx)\<close>

text \<open>
  The modal keeps the entries in an object keyed by platform; its values come back in the
  order in which the platforms were first inserted.
\<close>

fun pushConfig ::
  "(Platform \<times> DistributionConfig list) list \<Rightarrow> DistributionConfig
     \<Rightarrow> (Platform \<times> DistributionConfig list) list" where
  "pushConfig [] c = [(platform c, [c])]"
| "pushConfig ((p, cs) # rest) c =
     (if p = platform c then (p, cs @ [c]) # rest else (p, cs) # pushConfig rest c)"

definition initialConfigs :: "VideoAsset \<Rightarrow> (Platform \<times> DistributionConfig list) list" where
  "initialConfigs video =
     (case distributionConfig video of
        None \<Rightarrow> []
      | Some cs \<Rightarrow> foldl pushConfig [] cs)"

definition activeConfigsOf ::
  "(Platform \<times> DistributionConfig list) list \<Rightarrow> DistributionConfig list" where
  \<comment> \<open>\<open>Object.values(configs).flat()\<close>\<close>
  "activeConfigsOf configs = concat (map snd configs)"

definition uploadMetadata :: "VideoAsset \<Rightarrow> DistributionConfig \<Rightarrow> YouTubeMetadata" where
  "uploadMetadata video config =
     \<lparr>ytTitle = (case title (metadata config) of
                   None \<Rightarrow> videoTitle video
                 | Some t \<Rightarrow> if t = [] then videoTitle video else t),
      ytDescription = (case caption (metadata config) of None \<Rightarrow> [] | Some c \<Rightarrow> c),
      ytTags = (case tags (metadata config) of
                  None \<Rightarrow> []
                | Some t \<Rightarrow> if t = [] then [] else map trim (splitOn 44 t)),
      ytCategoryId = (case categoryId (metadata config) of
                        None \<Rightarrow> ''22''
                      | Some c \<Rightarrow> if c = [] then ''22'' else c),
      ytPlaylistId = Absent,
      ytPrivacyStatus = Public\<rparr>"

text \<open>
  The upload loop of \<open>handleConfirm\<close>. The source iterates over the YouTube entries of
  \<open>activeConfigs\<close>; these are the same objects, so writing \<open>config.externalId\<close> changes the
  entry of \<open>activeConfigs\<close> too. The model walks \<open>activeConfigs\<close> and passes the other
  platforms' entries through. The result is the error message of the failed upload (if
  any), the entries as they stand afterwards, and the platform's state.
\<close>

fun uploadAll ::
  "'w YouTubeAdapter \<Rightarrow> Integration list \<Rightarrow> VideoAsset \<Rightarrow> string option \<Rightarrow> 'w
     \<Rightarrow> DistributionConfig list \<Rightarrow> string option \<times> DistributionConfig list \<times> 'w" where
  "uploadAll ad integrations video finalDate w [] = (None, [], w)"
| "uploadAll ad integrations video finalDate w (config # rest) =
     (if platform config \<noteq> Youtube
      then (case uploadAll ad integrations video finalDate w rest of
              (err, rest', w') \<Rightarrow> (err, config # rest', w'))
      else
        (case findToken integrations (accountId config) of
           None \<Rightarrow>
             (case uploadAll ad integrations video finalDate w rest of
                (err, rest', w') \<Rightarrow> (err, config # rest', w'))
         | Some token \<Rightarrow>
             (case uploadVideoToYouTube ad w token (storagePath video)
                     (uploadMetadata video config) finalDate of
                (Inl msg, w1) \<Rightarrow> (Some msg, config # rest, w1)
              | (Inr rid, w1) \<Rightarrow>
                  (let w2 = (case playlistId (metadata config) of
                               Given pl \<Rightarrow>
                                 if pl = [] then w1 else addVideoToPlaylist ad w1 token pl rid
                             | _ \<Rightarrow> w1)
                   in case uploadAll ad integrations video finalDate w2 rest of
                        (err, rest', w') \<Rightarrow>
                          (err, config\<lparr>externalId := Some rid\<rparr> # rest', w')))))"

definition handleDistribute ::
  "string \<Rightarrow> Store \<Rightarrow> string \<Rightarrow> DistributionConfig list \<Rightarrow> string option \<Rightarrow> Store" where
  \<comment> \<open>DistributionView: a failed write is caught and logged\<close>
  "handleDistribute now s vid config sched =
     (case markVideoAsProcessing now s vid config sched of Inl e \<Rightarrow> s | Inr s' \<Rightarrow> s')"

record 'w DistributeOutcome =
  outWorld :: 'w
  outStore :: Store
  outConfigs :: "DistributionConfig list"
  outAlert :: "string option"

definition handleConfirm ::
  "'w YouTubeAdapter \<Rightarrow> Integration list \<Rightarrow> VideoAsset
     \<Rightarrow> (Platform \<times> DistributionConfig list) list \<Rightarrow> bool \<Rightarrow> string \<Rightarrow> string
     \<Rightarrow> 'w \<Rightarrow> Store \<Rightarrow> 'w DistributeOutcome" where
  \<comment> \<open>\<open>pickedDate\<close> is the ISO string of the chosen date and time, \<open>now\<close> the clock\<close>
  "handleConfirm ad integrations video configs isScheduling pickedDate now w s =
     (let activeConfigs = activeConfigsOf configs in
      if length activeConfigs = 0
      then \<lparr>outWorld = w, outStore = s, outConfigs = activeConfigs, outAlert = None\<rparr>
      else
        (let finalDate = (if isScheduling then Some pickedDate else None) in
         case uploadAll ad integrations video finalDate w activeConfigs of
           (Some msg, cs, w') \<Rightarrow>
             \<lparr>outWorld = w', outStore = s, outConfigs = cs, outAlert = Some msg\<rparr>
         | (None, cs, w') \<Rightarrow>
             \<lparr>outWorld = w', outStore = handleDistribute now s (videoId video) cs finalDate,
              outConfigs = cs, outAlert = None\<rparr>))"


section \<open>Cancelling a schedule (CalendarView.tsx)\<close>

record CalendarState =
  previewVideo :: "VideoAsset option"
  showCancelModal :: bool

definition handleCancelClick :: "CalendarState \<Rightarrow> CalendarState" where
  "handleCancelClick st =
     (case previewVideo st of
        None \<Rightarrow> st
      | Some pv \<Rightarrow> if status pv = Scheduled then st\<lparr>showCancelModal := True\<rparr> else st)"

definition deleteRemote ::
  "'w YouTubeAdapter \<Rightarrow> Integration list \<Rightarrow> VideoAsset \<Rightarrow> 'w \<Rightarrow> (error + unit) \<times> 'w" where
  \<comment> \<open>step 1 of \<open>onConfirmCancel\<close>: "Check for YouTube External ID and Delete if exists";
      \<open>integrations\<close> is what \<open>getIntegrations()\<close> returned\<close>
  "deleteRemote ad integrations pv w =
     (case distributionConfig pv of
        None \<Rightarrow> (Inr (), w)
      | Some cs \<Rightarrow>
          (case find (\<lambda>c. platform c = Youtube \<and> present (externalId c)) cs of
             None \<Rightarrow> (Inr (), w)
           | Some ytConfig \<Rightarrow>
               (case findToken integrations (accountId ytConfig) of
                  None \<Rightarrow> (Inr (), w)
                | Some token \<Rightarrow>
                    (case externalId ytConfig of
                       None \<Rightarrow> (Inr (), w)
                     | Some eid \<Rightarrow> deleteVideoFromYouTube ad w token eid))))"

record 'w CancelOutcome =
  cancelState :: CalendarState
  cancelWorld :: 'w
  cancelStore :: Store
  cancelAlert :: bool

definition onConfirmCancel ::
  "'w YouTubeAdapter \<Rightarrow> Integration list \<Rightarrow> CalendarState \<Rightarrow> 'w \<Rightarrow> Store \<Rightarrow> 'w CancelOutcome" where
  \<comment> \<open>Any error is caught: it is logged and an alert is shown; \<open>finally\<close> closes the modal.\<close>
  "onConfirmCancel ad integrations st w s =
     (case previewVideo st of
        None \<Rightarrow> \<lparr>cancelState = st, cancelWorld = w, cancelStore = s, cancelAlert = False\<rparr>
      | Some pv \<Rightarrow>
          (case deleteRemote ad integrations pv w of
             (Inl e, w') \<Rightarrow>
               \<lparr>cancelState = st\<lparr>showCancelModal := False\<rparr>, cancelWorld = w',
                cancelStore = s, cancelAlert = True\<rparr>
           | (Inr u, w') \<Rightarrow>
               (case cancelVideoScheduling s (videoId pv) of
                  Inl e \<Rightarrow>
                    \<lparr>cancelState = st\<lparr>showCancelModal := False\<rparr>, cancelWorld = w',
                     cancelStore = s, cancelAlert = True\<rparr>
                | Inr s' \<Rightarrow>
                    \<lparr>cancelState = \<lparr>previewVideo = None, showCancelModal = False\<rparr>,
                     cancelWorld = w', cancelStore = s', cancelAlert = False\<rparr>)))"


section \<open>Sample data\<close>

text \<open>
  Concrete assets, stores and view states on which the theorems below are instantiated. The
  one-unit strings \<open>[84]\<close>, \<open>[100]\<close>, \<open>[99]\<close> and \<open>[86]\<close> are the letters T, d, c and V;
  \<open>[32]\<close> is a single space.
\<close>

definition sampleVideo :: "string \<Rightarrow> VideoStatus \<Rightarrow> VideoAsset" where
  "sampleVideo vid st =
     \<lparr>videoId = vid, projectId = Some ''p1'', videoTitle = [86], storagePath = ''videos/v.mp4'',
      format = Vertical, status = st, scheduledDate = None, distributionConfig = None,
      platforms = None, youtubeMetadata = None, instagramMetadata = None,
      tiktokMetadata = None\<rparr>"

definition sampleProject :: Project where
  "sampleProject = \<lparr>projId = ''p1'', videoCount = 0, stats = None\<rparr>"

definition sampleVideos :: "VideoAsset list" where
  "sampleVideos =
     [sampleVideo ''v1'' Dismissed, sampleVideo ''v2'' Approved, sampleVideo ''v3'' Scheduled,
      sampleVideo ''v4'' Pending, sampleVideo ''v5'' Published]"

definition sampleStore :: Store where
  "sampleStore = \<lparr>videos = sampleVideos, projects = [sampleProject]\<rparr>"

definition mediaState :: "nat \<Rightarrow> nat \<Rightarrow> number \<Rightarrow> ModalState" where
  "mediaState w h d =
     (initialState (sampleVideo ''v1'' Pending))\<lparr>videoDimensions := Some (w, h), videoDuration := Some d\<rparr>"

definition sampleConfig :: "Platform \<Rightarrow> string \<Rightarrow> PostType \<Rightarrow> DistributionConfig" where
  "sampleConfig p acc pt =
     \<lparr>platform = p, accountId = acc, postType = pt, externalId = None,
      metadata = \<lparr>title = None, caption = Some [99], location = None, collaborators = None,
                  tags = None, playlistId = Absent, categoryId = None, chapters = None,
                  privacyStatus = None\<rparr>\<rparr>"

definition shortsState :: ModalState where
  "shortsState =
     (initialState (sampleVideo ''v4'' Pending))
       \<lparr>distributionConfigs := [sampleConfig Youtube ''acc1'' Shorts,
                                sampleConfig Instagram ''acc2'' Reel,
                                sampleConfig Youtube ''acc3'' Shorts],
        videoDimensions := Some (1080, 2160),
        videoDuration := Some (Finite 90)\<rparr>"

definition approveState :: "Platform list \<Rightarrow> jsstring \<Rightarrow> jsstring \<Rightarrow> DistributionConfig list \<Rightarrow> ModalState" where
  "approveState ps t d cs =
     (initialState (sampleVideo ''v4'' Pending))
       \<lparr>selectedPlatforms := ps,
        ytData := defaultYt\<lparr>ytTitle := t, ytDescription := d\<rparr>,
        distributionConfigs := cs\<rparr>"

definition scheduledVideo :: VideoAsset where
  "scheduledVideo =
     (sampleVideo ''v3'' Scheduled)
       \<lparr>scheduledDate := Some ''2026-12-01T09:00:00.000Z'',
        distributionConfig :=
          Some [(sampleConfig Youtube ''acc1'' Video)\<lparr>externalId := Some ''yt-1''\<rparr>],
        platforms := Some [Youtube]\<rparr>"

definition scheduledStore :: Store where
  "scheduledStore = \<lparr>videos = [scheduledVideo, sampleVideo ''v2'' Approved], projects = [sampleProject]\<rparr>"

definition toggleState :: "DistributionConfig list \<Rightarrow> ModalState" where
  "toggleState cs = approveState [Youtube, Instagram] [84] [100] cs"

text \<open>
  A platform whose state is the log of the calls it received: uploads succeed for the token
  of channel A and fail for any other, and every \<open>DELETE\<close> is answered with the given
  status and an empty body.
\<close>

definition logAdapter :: "nat \<Rightarrow> string list YouTubeAdapter" where
  "logAdapter deleteStatus =
     \<lparr>uploadVideoToYouTube =
        (\<lambda>w token path md sched.
           if token = ''tokA'' then (Inr ''yt-A'', w @ [''upload '' @ token])
           else (Inl ''quotaExceeded'', w @ [''upload '' @ token])),
      addVideoToPlaylist = (\<lambda>w token pl vid. w @ [''playlist '' @ pl]),
      fetchDelete = (\<lambda>w token vid. (HttpResponse deleteStatus [], w @ [''delete '' @ vid]))\<rparr>"

definition sampleIntegrations :: "Integration list" where
  "sampleIntegrations =
     [\<lparr>integId = ''acc1'', integName = ''Channel A'', integPlatform = Youtube,
       accessToken = Some ''tokA''\<rparr>,
      \<lparr>integId = ''acc2'', integName = ''Profile'', integPlatform = Instagram,
       accessToken = None\<rparr>,
      \<lparr>integId = ''acc3'', integName = ''Channel B'', integPlatform = Youtube,
       accessToken = Some ''tokB''\<rparr>]"

definition approvedVideo :: VideoAsset where
  "approvedVideo =
     (sampleVideo ''v2'' Approved)
       \<lparr>distributionConfig :=
          Some [sampleConfig Youtube ''acc1'' Video, sampleConfig Instagram ''acc2'' Reel,
                sampleConfig Youtube ''acc3'' Video],
        platforms := Some [Youtube, Instagram]\<rparr>"

definition approvedStore :: Store where
  "approvedStore = \<lparr>videos = [approvedVideo], projects = [sampleProject]\<rparr>"

definition cancelView :: CalendarState where
  "cancelView = \<lparr>previewVideo = Some scheduledVideo, showCancelModal = True\<rparr>"

text \<open>A scheduled asset that was published to two YouTube channels and to Instagram.\<close>

definition twoChannelVideo :: VideoAsset where
  "twoChannelVideo =
     (sampleVideo ''v3'' Scheduled)
       \<lparr>scheduledDate := Some ''2026-12-01T09:00:00.000Z'',
        distributionConfig :=
          Some [sampleConfig Instagram ''acc2'' Reel,
                (sampleConfig Youtube ''acc1'' Video)\<lparr>externalId := Some ''yt-1''\<rparr>,
                (sampleConfig Youtube ''acc3'' Video)\<lparr>externalId := Some ''yt-2''\<rparr>],
        platforms := Some [Instagram, Youtube]\<rparr>"

definition twoChannelStore :: Store where
  "twoChannelStore = \<lparr>videos = [twoChannelVideo], projects = [sampleProject]\<rparr>"

definition twoChannelView :: CalendarState where
  "twoChannelView = \<lparr>previewVideo = Some twoChannelVideo, showCancelModal = True\<rparr>"

text \<open>An approved asset with a single YouTube entry, whose upload succeeds.\<close>

definition oneChannelVideo :: VideoAsset where
  "oneChannelVideo =
     (sampleVideo ''v2'' Approved)
       \<lparr>distributionConfig :=
          Some [sampleConfig Youtube ''acc1'' Video, sampleConfig Instagram ''acc2'' Reel],
        platforms := Some [Youtube, Instagram]\<rparr>"

definition oneChannelStore :: Store where
  "oneChannelStore = \<lparr>videos = [oneChannelVideo], projects = [sampleProject]\<rparr>"


section \<open>Blank strings\<close>

text \<open>A string is not blank when it has a code unit that \<open>trim\<close> keeps.\<close>

definition nonBlank :: "jsstring \<Rightarrow> bool" where
  "nonBlank s = list_ex (\<lambda>c. \<not> isWhiteSpace c) s"


section \<open>The approval guard in the specification's words\<close>

text \<open>
  The guard as the specification words it: at least one platform is toggled on, every
  toggled platform has its required metadata fields non-empty, and every toggled platform
  has at least one configuration entry. It is compared with \<open>isAllReady\<close> below.
\<close>

definition spec_requiredMetadataNonEmpty :: "ModalState \<Rightarrow> Platform \<Rightarrow> bool" where
  "spec_requiredMetadataNonEmpty st p =
     (case p of
        Youtube \<Rightarrow> ytTitle (ytData st) \<noteq> [] \<and> ytDescription (ytData st) \<noteq> []
      | Instagram \<Rightarrow> smCaption (igData st) \<noteq> []
      | Tiktok \<Rightarrow> smCaption (ttData st) \<noteq> []
      | _ \<Rightarrow> True)"

definition spec_approveAllowed :: "ModalState \<Rightarrow> bool" where
  "spec_approveAllowed st =
     (selectedPlatforms st \<noteq> []
      \<and> list_all (spec_requiredMetadataNonEmpty st) (selectedPlatforms st)
      \<and> list_all (\<lambda>p. list_ex (\<lambda>c. platform c = p) (distributionConfigs st))
           (selectedPlatforms st))"

section \<open>Auxiliary facts\<close>

lemma find_map_key:
  assumes "\<And>q. key (g q) = key q"
    and "find (\<lambda>p. key p = k) ps = Some p"
  shows "find (\<lambda>p. key p = k) (map (\<lambda>p. if key p = k then g p else p) ps) = Some (g p)"
  using assms(2) by (induction ps) (auto simp add: assms(1) split: if_splits)

lemma getDoc_updateDoc:
  assumes "getDoc s vid = Some v" and "\<And>q. videoId (f q) = videoId q"
  shows "\<exists>s'. updateDoc s vid f = Inr s' \<and> getDoc s' vid = Some (f v) \<and> projects s' = projects s"
  using assms find_map_key [of videoId f vid "videos s" v]
  by (simp add: updateDoc_def getDoc_def)

lemma updateDoc_None:
  "getDoc s vid = None \<Longrightarrow> updateDoc s vid f = Inl NotFound"
  by (simp add: updateDoc_def)

lemma foldl_settings:
  assumes "\<forall>c\<in>set cs. platform c = p \<longrightarrow> postType c = t" and "ps p = t"
  shows "foldl (\<lambda>ps c. ps(platform c := postType c)) ps cs p = t"
  using assms by (induction cs arbitrary: ps) auto

lemma save_configs [simp]:
  "distributionConfigs (fst (saveDistributionConfigs st s cfgs)) = cfgs"
  by (simp add: saveDistributionConfigs_def Let_def onUpdate_def syncVideoProp_def split: sum.splits)

lemma save_videoId [simp]:
  "videoId (localVideo (fst (saveDistributionConfigs st s cfgs))) = videoId (localVideo st)"
  by (simp add: saveDistributionConfigs_def Let_def onUpdate_def syncVideoProp_def split: sum.splits)

lemma save_settings:
  assumes "\<forall>c\<in>set cfgs. platform c = p \<longrightarrow> postType c = t" and "platformSettings st p = t"
  shows "platformSettings (fst (saveDistributionConfigs st s cfgs)) p = t"
  using assms foldl_settings [of cfgs p t "platformSettings st"]
  by (simp add: saveDistributionConfigs_def Let_def onUpdate_def syncVideoProp_def split: sum.splits)

lemma save_persists:
  assumes "getDoc s (videoId (localVideo st)) \<noteq> None"
  shows "map_option distributionConfig (getDoc (snd (saveDistributionConfigs st s cfgs)) (videoId (localVideo st)))
           = Some (Some cfgs)"
proof -
  from assms obtain v where v: "getDoc s (videoId (localVideo st)) = Some v" by auto
  from getDoc_updateDoc [OF v, of "\<lambda>v. v\<lparr>distributionConfig := Some cfgs\<rparr>"]
  obtain s' where "updateDoc s (videoId (localVideo st)) (\<lambda>v. v\<lparr>distributionConfig := Some cfgs\<rparr>) = Inr s'"
    and "getDoc s' (videoId (localVideo st)) = Some (v\<lparr>distributionConfig := Some cfgs\<rparr>)"
    by auto
  then show ?thesis
    by (simp add: saveDistributionConfigs_def updateVideoDistributionConfig_def Let_def)
qed

lemma mediaState_simps:
  "videoDimensions (mediaState w h d) = Some (w, h)"
  "videoDuration (mediaState w h d) = Some d"
  "selectedPlatforms (mediaState w h d) = []"
  by (simp_all add: mediaState_def initialState_def sampleVideo_def)

lemma shortsState_simps:
  "videoDimensions shortsState = Some (1080, 2160)"
  "videoDuration shortsState = Some (Finite 90)"
  "platformSettings shortsState Youtube = Shorts"
  "videoId (localVideo shortsState) = ''v4''"
  "distributionConfigs shortsState = [sampleConfig Youtube ''acc1'' Shorts,
                                sampleConfig Instagram ''acc2'' Reel,
                                sampleConfig Youtube ''acc3'' Shorts]"
  by (simp_all add: shortsState_def initialState_def sampleVideo_def initialPlatformSettings_def)

lemma sampleConfig_simps:
  "platform (sampleConfig p acc pt) = p"
  "accountId (sampleConfig p acc pt) = acc"
  "postType (sampleConfig p acc pt) = pt"
  "externalId (sampleConfig p acc pt) = None"
  "(sampleConfig p acc pt)\<lparr>postType := pt'\<rparr> = sampleConfig p acc pt'"
  by (simp_all add: sampleConfig_def)

lemma getDoc_sampleStore:
  "getDoc sampleStore ''v4'' = Some (sampleVideo ''v4'' Pending)"
  "getDoc sampleStore ''v2'' = Some (sampleVideo ''v2'' Approved)"
  "getDoc sampleStore ''v3'' = Some (sampleVideo ''v3'' Scheduled)"
  by (simp_all add: getDoc_def sampleStore_def sampleVideos_def sampleVideo_def)

lemma dropWhile_all: "(\<forall>x\<in>set (dropWhile P xs). P x) \<longleftrightarrow> (\<forall>x\<in>set xs. P x)"
  by (induction xs) auto

lemma trim_nonempty: "trim s \<noteq> [] \<longleftrightarrow> nonBlank s"
proof -
  have "trim s = [] \<longleftrightarrow> (\<forall>x\<in>set (rev (dropWhile isWhiteSpace s)). isWhiteSpace x)"
    by (simp add: trim_def dropWhile_eq_Nil_conv)
  also have "\<dots> \<longleftrightarrow> (\<forall>x\<in>set s. isWhiteSpace x)"
    by (simp add: dropWhile_all)
  finally show ?thesis by (auto simp add: nonBlank_def list_ex_iff)
qed

lemma approveState_simps:
  "selectedPlatforms (approveState ps t d cs) = ps"
  "ytTitle (ytData (approveState ps t d cs)) = t"
  "ytDescription (ytData (approveState ps t d cs)) = d"
  "distributionConfigs (approveState ps t d cs) = cs"
  "showApproveModal (approveState ps t d cs) = False"
  by (simp_all add: approveState_def initialState_def)

lemma nonBlank_simps:
  "nonBlank [] = False"
  "nonBlank [32] = False"
  "nonBlank [84] = True"
  "nonBlank [100] = True"
  "nonBlank [99] = True"
  by (simp_all add: nonBlank_def isWhiteSpace_def)

lemma videos_recalculate [simp]: "videos (recalculateProjectStats s pid) = videos s"
  by (simp add: recalculateProjectStats_def Let_def split: option.splits)

lemma getDoc_recalcForVideo [simp]: "getDoc (recalcForVideo s snap) vid = getDoc s vid"
  by (simp add: recalcForVideo_def getDoc_def split: option.splits)

lemma setStatus_ok:
  assumes "getDoc s vid = Some v"
  shows "\<exists>s'. setStatus s vid st = Inr s' \<and> getDoc s' vid = Some (v\<lparr>status := st\<rparr>)"
  using getDoc_updateDoc [OF assms, of "\<lambda>v. v\<lparr>status := st\<rparr>"]
  by (auto simp add: setStatus_def)

lemma markVideoAsProcessing_ok:
  assumes "getDoc s vid = Some v"
  shows "\<exists>s'. markVideoAsProcessing now s vid cfgs sched = Inr s'
           \<and> getDoc s' vid
               = Some (v\<lparr>status := (if present sched then Scheduled else Published),
                         platforms := Some (map platform cfgs),
                         distributionConfig := Some cfgs,
                         scheduledDate := (if present sched then sched else Some now)\<rparr>)"
  using getDoc_updateDoc [OF assms,
      of "\<lambda>v. v\<lparr>status := (if present sched then Scheduled else Published),
                         platforms := Some (map platform cfgs),
                         distributionConfig := Some cfgs,
                         scheduledDate := (if present sched then sched else Some now)\<rparr>"]
  by (auto simp add: markVideoAsProcessing_def Let_def)

lemma getDoc_scheduledStore:
  "getDoc scheduledStore ''v3'' = Some scheduledVideo"
  "getDoc scheduledStore ''v2'' = Some (sampleVideo ''v2'' Approved)"
  by (simp_all add: getDoc_def scheduledStore_def scheduledVideo_def sampleVideo_def)

lemma scheduledVideo_simps:
  "status scheduledVideo = Scheduled"
  "scheduledDate scheduledVideo = Some ''2026-12-01T09:00:00.000Z''"
  "videoId scheduledVideo = ''v3''"
  "projectId scheduledVideo = Some ''p1''"
  "distributionConfig scheduledVideo
     = Some [(sampleConfig Youtube ''acc1'' Video)\<lparr>externalId := Some ''yt-1''\<rparr>]"
  by (simp_all add: scheduledVideo_def sampleVideo_def)

lemma toggleState_simps:
  "distributionConfigs (toggleState cs) = cs"
  "videoId (localVideo (toggleState cs)) = ''v4''"
  by (simp_all add: toggleState_def approveState_def initialState_def sampleVideo_def)

lemma sample_tokens:
  "findToken sampleIntegrations ''acc1'' = Some ''tokA''"
  "findToken sampleIntegrations ''acc3'' = Some ''tokB''"
  "findToken sampleIntegrations ''acc2'' = None"
  by (simp_all add: findToken_def sampleIntegrations_def)

lemma sample_active:
  "activeConfigsOf (initialConfigs approvedVideo)
     = [sampleConfig Youtube ''acc1'' Video] @ sampleConfig Youtube ''acc3'' Video
         # [sampleConfig Instagram ''acc2'' Reel]"
  by (simp add: activeConfigsOf_def initialConfigs_def approvedVideo_def sampleConfig_simps)

lemma sample_upload_first:
  "uploadAll (logAdapter n) sampleIntegrations approvedVideo None [] [sampleConfig Youtube ''acc1'' Video]
     = (None, [(sampleConfig Youtube ''acc1'' Video)\<lparr>externalId := Some ''yt-A''\<rparr>], [''upload tokA''])"
  by (simp add: sampleConfig_simps sample_tokens logAdapter_def sampleConfig_def Let_def)

lemma sample_upload_second:
  "uploadVideoToYouTube (logAdapter n) [''upload tokA''] ''tokB'' (storagePath approvedVideo)
      (uploadMetadata approvedVideo (sampleConfig Youtube ''acc3'' Video)) None
     = (Inl ''quotaExceeded'', [''upload tokA'', ''upload tokB''])"
  by (simp add: logAdapter_def)

lemma getDoc_approvedStore:
  "getDoc approvedStore ''v2'' = Some approvedVideo"
  by (simp add: getDoc_def approvedStore_def approvedVideo_def sampleVideo_def)

lemma approvedVideo_simps:
  "status approvedVideo = Approved"
  "distributionConfig approvedVideo
     = Some [sampleConfig Youtube ''acc1'' Video, sampleConfig Instagram ''acc2'' Reel,
             sampleConfig Youtube ''acc3'' Video]"
  by (simp_all add: approvedVideo_def sampleVideo_def)

lemma cancelView_simps:
  "previewVideo cancelView = Some scheduledVideo"
  "showCancelModal cancelView = True"
  by (simp_all add: cancelView_def)

lemma sample_fetchDelete:
  "fetchDelete (logAdapter n) [] ''tokA'' ''yt-1'' = (HttpResponse n [], [''delete yt-1''])"
  by (simp add: logAdapter_def)

lemma twoChannel_simps:
  "status twoChannelVideo = Scheduled"
  "videoId twoChannelVideo = ''v3''"
  "distributionConfig twoChannelVideo
     = Some [sampleConfig Instagram ''acc2'' Reel,
             (sampleConfig Youtube ''acc1'' Video)\<lparr>externalId := Some ''yt-1''\<rparr>,
             (sampleConfig Youtube ''acc3'' Video)\<lparr>externalId := Some ''yt-2''\<rparr>]"
  "getDoc twoChannelStore ''v3'' = Some twoChannelVideo"
  "previewVideo twoChannelView = Some twoChannelVideo"
  by (simp_all add: twoChannelVideo_def twoChannelStore_def twoChannelView_def getDoc_def
      sampleVideo_def)

lemma oneChannel_simps:
  "videoId oneChannelVideo = ''v2''"
  "getDoc oneChannelStore ''v2'' = Some oneChannelVideo"
  by (simp_all add: oneChannelVideo_def oneChannelStore_def getDoc_def sampleVideo_def)

lemma sample_project:
  "findProject scheduledStore ''p1'' \<noteq> None"
  by (simp add: findProject_def scheduledStore_def sampleProject_def)

section \<open>Project aggregation\<close>

lemma foldl_countVideo_total:
  "total (foldl countVideo st vs) = total st"
  by (induction vs arbitrary: st) (simp_all add: countVideo_def)

lemma foldl_countVideo_discarded:
  "discarded (foldl countVideo st vs)
     = discarded st + length (filter (\<lambda>v. status v = Dismissed) vs)"
  by (induction vs arbitrary: st) (simp_all add: countVideo_def)

lemma foldl_countVideo_scheduledOrPublished:
  "scheduledOrPublished (foldl countVideo st vs)
     = scheduledOrPublished st
       + length (filter (\<lambda>v. status v = Scheduled \<or> status v = Published) vs)"
  by (induction vs arbitrary: st) (auto simp add: countVideo_def)

lemma foldl_countVideo_approved:
  "approved (foldl countVideo st vs)
     = approved st + length (filter (\<lambda>v. status v = Approved) vs)"
  by (induction vs arbitrary: st) (simp_all add: countVideo_def)

lemma foldl_countVideo_pendingReview:
  "pendingReview (foldl countVideo st vs)
     = pendingReview st
       + length (filter (\<lambda>v. status v \<noteq> Dismissed \<and> status v \<noteq> Scheduled
                              \<and> status v \<noteq> Published \<and> status v \<noteq> Approved) vs)"
  by (induction vs arbitrary: st) (auto simp add: countVideo_def)

lemma partition_lengths:
  "length vs
     = length (filter (\<lambda>v. status v \<noteq> Dismissed \<and> status v \<noteq> Scheduled
                             \<and> status v \<noteq> Published \<and> status v \<noteq> Approved) vs)
       + length (filter (\<lambda>v. status v = Approved) vs)
       + length (filter (\<lambda>v. status v = Scheduled \<or> status v = Published) vs)
       + length (filter (\<lambda>v. status v = Dismissed) vs)"
  by (induction vs) auto

lemma findProject_recalculate:
  assumes "findProject s pid = Some p"
  shows "findProject (recalculateProjectStats s pid) pid
           = Some (p\<lparr>videoCount := total (computeStats (projectVideos s pid)),
                     stats := Some (computeStats (projectVideos s pid))\<rparr>)"
  using assms
    find_map_key [of projId "\<lambda>q. q\<lparr>videoCount := total (computeStats (projectVideos s pid)),
                              stats := Some (computeStats (projectVideos s pid))\<rparr>" pid "projects s" p]
  by (simp add: recalculateProjectStats_def findProject_def Let_def)

lemma computeStats_five:
  assumes "map status vs = [Dismissed, Approved, Scheduled, Pending, Published]"
  shows "computeStats vs
           = \<lparr>total = 5, pendingReview = 1, approved = 1, scheduledOrPublished = 2,
              discarded = 1\<rparr>"
proof -
  from assms obtain v1 v2 v3 v4 v5 where "vs = [v1, v2, v3, v4, v5]"
    and "status v1 = Dismissed" "status v2 = Approved" "status v3 = Scheduled"
        "status v4 = Pending" "status v5 = Published"
    by (auto simp add: map_eq_Cons_conv)
  then show ?thesis
    by (simp add: computeStats_def countVideo_def)
qed

text \<open>
  C6. \<open>recalculateProjectStats\<close> writes, for the videos that reference the project, the
  partition by status: \<open>discarded\<close> counts the dismissed videos, \<open>scheduledOrPublished\<close>
  the scheduled or published ones, \<open>approved\<close> the approved ones, \<open>pendingReview\<close> all the
  others, and \<open>total\<close> is the number of videos, hence the sum of the four buckets. Videos
  with statuses dismissed, approved, scheduled, pending, published give
  \<open>{total: 5, pendingReview: 1, approved: 1, scheduledOrPublished: 2, discarded: 1}\<close>.
\<close>

theorem recomputeStats_partition:
  "discarded (computeStats vs) = length (filter (\<lambda>v. status v = Dismissed) vs)
   \<and> scheduledOrPublished (computeStats vs)
       = length (filter (\<lambda>v. status v = Scheduled \<or> status v = Published) vs)
   \<and> approved (computeStats vs) = length (filter (\<lambda>v. status v = Approved) vs)
   \<and> pendingReview (computeStats vs)
       = length (filter (\<lambda>v. status v \<noteq> Dismissed \<and> status v \<noteq> Scheduled
                               \<and> status v \<noteq> Published \<and> status v \<noteq> Approved) vs)
   \<and> total (computeStats vs) = length vs
   \<and> total (computeStats vs)
       = pendingReview (computeStats vs) + approved (computeStats vs)
         + scheduledOrPublished (computeStats vs) + discarded (computeStats vs)
   \<and> (map status vs = [Dismissed, Approved, Scheduled, Pending, Published] \<longrightarrow>
        computeStats vs
          = \<lparr>total = 5, pendingReview = 1, approved = 1, scheduledOrPublished = 2,
             discarded = 1\<rparr>)
   \<and> (findProject s pid \<noteq> None \<longrightarrow>
        map_option stats (findProject (recalculateProjectStats s pid) pid)
          = Some (Some (computeStats (projectVideos s pid))))"
proof -
  have d: "discarded (computeStats vs) = length (filter (\<lambda>v. status v = Dismissed) vs)"
    by (simp add: computeStats_def foldl_countVideo_discarded)
  have sp: "scheduledOrPublished (computeStats vs)
           = length (filter (\<lambda>v. status v = Scheduled \<or> status v = Published) vs)"
    by (simp add: computeStats_def foldl_countVideo_scheduledOrPublished)
  have a: "approved (computeStats vs) = length (filter (\<lambda>v. status v = Approved) vs)"
    by (simp add: computeStats_def foldl_countVideo_approved)
  have pr: "pendingReview (computeStats vs)
           = length (filter (\<lambda>v. status v \<noteq> Dismissed \<and> status v \<noteq> Scheduled
                                   \<and> status v \<noteq> Published \<and> status v \<noteq> Approved) vs)"
    by (simp add: computeStats_def foldl_countVideo_pendingReview)
  have t: "total (computeStats vs) = length vs"
    by (simp add: computeStats_def foldl_countVideo_total)
  have sum: "total (computeStats vs)
       = pendingReview (computeStats vs) + approved (computeStats vs)
         + scheduledOrPublished (computeStats vs) + discarded (computeStats vs)"
    unfolding t pr a sp d by (rule partition_lengths)
  have store: "map_option stats (findProject (recalculateProjectStats s pid) pid)
          = Some (Some (computeStats (projectVideos s pid)))"
    if "findProject s pid \<noteq> None"
  proof -
    from that obtain p where "findProject s pid = Some p" by auto
    from findProject_recalculate [OF this] show ?thesis by simp
  qed
  show ?thesis
    by (intro conjI impI) (rule d sp a pr t sum computeStats_five store | assumption)+
qed

theorem recomputeStats_partition_witness:
  "map status sampleVideos = [Dismissed, Approved, Scheduled, Pending, Published]
   \<and> computeStats sampleVideos
       = \<lparr>total = 5, pendingReview = 1, approved = 1, scheduledOrPublished = 2, discarded = 1\<rparr>
   \<and> findProject sampleStore ''p1'' \<noteq> None
   \<and> projectVideos sampleStore ''p1'' = sampleVideos
   \<and> map_option stats (findProject (recalculateProjectStats sampleStore ''p1'') ''p1'')
       = Some (Some \<lparr>total = 5, pendingReview = 1, approved = 1, scheduledOrPublished = 2,
                     discarded = 1\<rparr>)"
proof -
  have m: "map status sampleVideos = [Dismissed, Approved, Scheduled, Pending, Published]"
    by (simp add: sampleVideos_def sampleVideo_def)
  have f: "findProject sampleStore ''p1'' \<noteq> None"
    by (simp add: findProject_def sampleStore_def sampleProject_def)
  have pv: "projectVideos sampleStore ''p1'' = sampleVideos"
    by (simp add: projectVideos_def sampleStore_def sampleVideos_def sampleVideo_def)
  note th = recomputeStats_partition [of sampleVideos sampleStore "''p1''"]
  from th m have c: "computeStats sampleVideos
       = \<lparr>total = 5, pendingReview = 1, approved = 1, scheduledOrPublished = 2, discarded = 1\<rparr>"
    by blast
  from th f have "map_option stats (findProject (recalculateProjectStats sampleStore ''p1'') ''p1'')
       = Some (Some (computeStats (projectVideos sampleStore ''p1'')))"
    by blast
  with pv c have w: "map_option stats (findProject (recalculateProjectStats sampleStore ''p1'') ''p1'')
       = Some (Some \<lparr>total = 5, pendingReview = 1, approved = 1, scheduledOrPublished = 2,
                     discarded = 1\<rparr>)"
    by simp
  from m c f pv w show ?thesis by (intro conjI)
qed

section \<open>Eligibility engine\<close>

lemma ratio_valid_iff:
  "isInstagramRatioValid st \<longleftrightarrow>
     (case videoDimensions st of None \<Rightarrow> True
      | Some (w, h) \<Rightarrow> h > 0 \<and> 1 / 2 \<le> real w / real h \<and> real w / real h \<le> 17 / 20)"
  by (auto simp add: isInstagramRatioValid_def js_div_def num_ge_def num_le_def split: option.splits)

lemma duration_valid_iff:
  "isInstagramDurationValid st \<longleftrightarrow>
     (case videoDuration st of None \<Rightarrow> True
      | Some NaN \<Rightarrow> True | Some Infinity \<Rightarrow> False
      | Some (Finite d) \<Rightarrow> d = 0 \<or> (3 \<le> d \<and> d \<le> 3600))"
  by (auto simp add: isInstagramDurationValid_def truthy_def num_ge_def num_le_def split: option.splits number.splits)

text \<open>
  C10. A duration of exactly 0 seconds passes the Instagram duration check, whatever the
  dimensions: the check tests the truthiness of the duration, so 0 is treated like a
  duration that is not yet known and is not compared with the 3-second minimum (which it
  would fail).
\<close>

theorem instagram_duration_zero_passes:
  "isInstagramDurationValid (st\<lparr>videoDimensions := dims, videoDuration := Some (Finite 0)\<rparr>)
   \<and> \<not> (num_ge (Finite 0) 3 \<and> num_le (Finite 0) 3600)"
  by (simp add: isInstagramDurationValid_def truthy_def num_ge_def)

theorem instagram_duration_zero_passes_witness:
  "isInstagramDurationValid (mediaState 1080 1920 (Finite 0))"
  using instagram_duration_zero_passes [where st = "initialState (sampleVideo ''v1'' Pending)" and dims = "Some (1080, 1920)"]
  by (simp add: mediaState_def)

text \<open>
  C9. While the dimensions are not yet known the Instagram ratio check passes, and while
  the duration is not yet known the duration check passes; with neither known both pass.
  While either is unknown the YouTube rule derives nothing and the effect that enforces it
  changes nothing. With neither known the Instagram toggle is not blocked: the click runs
  \<open>togglePlatformActive\<close>.
\<close>

theorem unknown_media_fail_open:
  "(videoDimensions st = None \<longrightarrow> isInstagramRatioValid st)
   \<and> (videoDuration st = None \<longrightarrow> isInstagramDurationValid st)
   \<and> (videoDimensions st = None \<and> videoDuration st = None \<longrightarrow> isInstagramValid st)
   \<and> (videoDimensions st = None \<or> videoDuration st = None \<longrightarrow>
        getYouTubeRuleType st = None \<and> enforceYouTubeRules st s = (st, s))
   \<and> (videoDimensions st = None \<and> videoDuration st = None \<longrightarrow>
        onSocialToggleClick st s p = togglePlatformActive st s p (p \<notin> set (selectedPlatforms st)))"
  by (auto simp add: isInstagramRatioValid_def isInstagramDurationValid_def isInstagramValid_def
      getYouTubeRuleType_def enforceYouTubeRules_def onSocialToggleClick_def split: option.splits)

theorem unknown_media_fail_open_witness:
  "videoDimensions (initialState (sampleVideo ''v1'' Pending)) = None
   \<and> videoDuration (initialState (sampleVideo ''v1'' Pending)) = None
   \<and> isInstagramRatioValid (initialState (sampleVideo ''v1'' Pending))
   \<and> isInstagramDurationValid (initialState (sampleVideo ''v1'' Pending))
   \<and> isInstagramValid (initialState (sampleVideo ''v1'' Pending))
   \<and> getYouTubeRuleType (initialState (sampleVideo ''v1'' Pending)) = None
   \<and> enforceYouTubeRules (initialState (sampleVideo ''v1'' Pending)) sampleStore
       = (initialState (sampleVideo ''v1'' Pending), sampleStore)
   \<and> selectedPlatforms (fst (onSocialToggleClick (initialState (sampleVideo ''v1'' Pending))
         sampleStore Instagram)) = [Instagram]"
proof -
  have n: "videoDimensions (initialState (sampleVideo ''v1'' Pending)) = None"
          "videoDuration (initialState (sampleVideo ''v1'' Pending)) = None"
    by (simp_all add: initialState_def)
  note th = unknown_media_fail_open [of "initialState (sampleVideo ''v1'' Pending)" sampleStore Instagram]
  have t: "selectedPlatforms (fst (togglePlatformActive (initialState (sampleVideo ''v1'' Pending))
         sampleStore Instagram
         (Instagram \<notin> set (selectedPlatforms (initialState (sampleVideo ''v1'' Pending)))))) = [Instagram]"
    by (simp add: togglePlatformActive_def initialState_def sampleVideo_def sampleStore_def
        sampleVideos_def updateVideoPlatforms_def updateDoc_def getDoc_def onUpdate_def
        syncVideoProp_def Let_def)
  from th n t show ?thesis by simp
qed

text \<open>
  C5 (amended). For Instagram, with known dimensions of positive height the ratio check
  passes exactly when \<open>0.50 \<le> width / height \<le> 0.85\<close>, and a height of 0 fails it. With a
  known finite duration other than 0 the duration check passes exactly when
  \<open>3 \<le> duration \<le> 3600\<close>; a duration of exactly 0 passes, as an unknown one does. Each
  check reads only its own input, and while either check fails the Instagram toggle does
  nothing.
\<close>

theorem instagram_checks:
  "(videoDimensions st = Some (w, h) \<and> h > 0 \<longrightarrow>
      (isInstagramRatioValid st \<longleftrightarrow> 0.50 \<le> real w / real h \<and> real w / real h \<le> 0.85))
   \<and> (videoDimensions st = Some (w, 0) \<longrightarrow> \<not> isInstagramRatioValid st)
   \<and> (videoDuration st = Some (Finite d) \<and> d \<noteq> 0 \<longrightarrow>
        (isInstagramDurationValid st \<longleftrightarrow> 3 \<le> d \<and> d \<le> 3600))
   \<and> (videoDuration st = Some (Finite 0) \<longrightarrow> isInstagramDurationValid st)
   \<and> isInstagramRatioValid (st\<lparr>videoDuration := dur\<rparr>) = isInstagramRatioValid st
   \<and> isInstagramDurationValid (st\<lparr>videoDimensions := dims\<rparr>) = isInstagramDurationValid st
   \<and> (\<not> isInstagramRatioValid st \<or> \<not> isInstagramDurationValid st \<longrightarrow>
        onSocialToggleClick st s Instagram = (st, s))"
  by (auto simp add: ratio_valid_iff duration_valid_iff isInstagramValid_def onSocialToggleClick_def)

theorem instagram_checks_witness:
  "\<not> isInstagramRatioValid (mediaState 49 100 (Finite 10))
   \<and> isInstagramRatioValid (mediaState 50 100 (Finite 10))
   \<and> isInstagramRatioValid (mediaState 85 100 (Finite 10))
   \<and> \<not> isInstagramRatioValid (mediaState 86 100 (Finite 10))
   \<and> \<not> isInstagramDurationValid (mediaState 60 100 (Finite 2))
   \<and> isInstagramDurationValid (mediaState 60 100 (Finite 3))
   \<and> isInstagramDurationValid (mediaState 60 100 (Finite 3600))
   \<and> \<not> isInstagramDurationValid (mediaState 60 100 (Finite 3601))
   \<and> selectedPlatforms (fst (onSocialToggleClick (mediaState 86 100 (Finite 10)) sampleStore Instagram)) = []
   \<and> \<not> isInstagramRatioValid (mediaState 100 0 (Finite 10))
   \<and> isInstagramDurationValid (mediaState 60 100 (Finite 0))"
proof -
  have r1: "\<not> isInstagramRatioValid (mediaState 49 100 (Finite 10))"
    using instagram_checks [of "mediaState 49 100 (Finite 10)" 49 100] by (simp add: mediaState_simps)
  have r2: "isInstagramRatioValid (mediaState 50 100 (Finite 10))"
    using instagram_checks [of "mediaState 50 100 (Finite 10)" 50 100] by (simp add: mediaState_simps)
  have r3: "isInstagramRatioValid (mediaState 85 100 (Finite 10))"
    using instagram_checks [of "mediaState 85 100 (Finite 10)" 85 100] by (simp add: mediaState_simps)
  have r4: "\<not> isInstagramRatioValid (mediaState 86 100 (Finite 10))"
    using instagram_checks [of "mediaState 86 100 (Finite 10)" 86 100] by (simp add: mediaState_simps)
  have d1: "\<not> isInstagramDurationValid (mediaState 60 100 (Finite 2))"
    using instagram_checks [of "mediaState 60 100 (Finite 2)" _ _ 2] by (simp add: mediaState_simps)
  have d2: "isInstagramDurationValid (mediaState 60 100 (Finite 3))"
    using instagram_checks [of "mediaState 60 100 (Finite 3)" _ _ 3] by (simp add: mediaState_simps)
  have d3: "isInstagramDurationValid (mediaState 60 100 (Finite 3600))"
    using instagram_checks [of "mediaState 60 100 (Finite 3600)" _ _ 3600] by (simp add: mediaState_simps)
  have d4: "\<not> isInstagramDurationValid (mediaState 60 100 (Finite 3601))"
    using instagram_checks [of "mediaState 60 100 (Finite 3601)" _ _ 3601] by (simp add: mediaState_simps)
  have t: "selectedPlatforms (fst (onSocialToggleClick (mediaState 86 100 (Finite 10)) sampleStore Instagram)) = []"
    using instagram_checks [of "mediaState 86 100 (Finite 10)" 86 100 _ _ _ sampleStore] r4
    by (simp add: mediaState_simps)
  have z: "\<not> isInstagramRatioValid (mediaState 100 0 (Finite 10))"
    using instagram_checks [of "mediaState 100 0 (Finite 10)" 100] by (simp add: mediaState_simps)
  have d0: "isInstagramDurationValid (mediaState 60 100 (Finite 0))"
    using instagram_checks [of "mediaState 60 100 (Finite 0)"] by (simp add: mediaState_simps)
  from r1 r2 r3 r4 d1 d2 d3 d4 t z d0 show ?thesis by (intro conjI)
qed


text \<open>
  The claim as stated fails for a video of known dimensions whose known duration is 0: the
  duration check passes although 0 is not between 3 and 3600.
\<close>

theorem instagram_checks_counterexample:
  "videoDimensions (mediaState 60 100 (Finite 0)) = Some (60, 100)
   \<and> videoDuration (mediaState 60 100 (Finite 0)) = Some (Finite 0)
   \<and> isInstagramDurationValid (mediaState 60 100 (Finite 0))
   \<and> \<not> (3 \<le> (0::real) \<and> (0::real) \<le> 3600)"
  by (simp add: mediaState_def isInstagramDurationValid_def truthy_def)

lemma rule_type_iff:
  "getYouTubeRuleType st =
     (case videoDimensions st of None \<Rightarrow> None
      | Some (w, h) \<Rightarrow>
         (case videoDuration st of None \<Rightarrow> None
          | Some NaN \<Rightarrow> None
          | Some Infinity \<Rightarrow> Some Video
          | Some (Finite d) \<Rightarrow>
              if d = 0 then None
              else if h > 0 \<and> real w / real h \<le> 1.1 \<and> d < 60 then Some Shorts else Some Video))"
proof (cases "videoDimensions st")
  case None
  then show ?thesis by (simp add: getYouTubeRuleType_def)
next
  case (Some wh)
  obtain w h where wh: "wh = (w, h)" by (cases wh)
  show ?thesis
  proof (cases "videoDuration st")
    case None
    with Some wh show ?thesis by (simp add: getYouTubeRuleType_def)
  next
    case d: (Some n)
    show ?thesis
    proof (cases n)
      case NaN
      with Some wh d show ?thesis by (simp add: getYouTubeRuleType_def truthy_def)
    next
      case Infinity
      with Some wh d show ?thesis
        by (simp add: getYouTubeRuleType_def truthy_def num_lt_def Let_def)
    next
      case (Finite r)
      with Some wh d show ?thesis
        by (simp add: getYouTubeRuleType_def truthy_def num_ge_def num_le_def num_lt_def
            js_div_def Let_def)
    qed
  qed
qed

lemma youtube_rule_geometry:
  assumes "videoDimensions st = Some (w, h)" and "videoDuration st = Some (Finite d)" and "d \<noteq> 0"
  shows "getYouTubeRuleType st
           = (if h > 0 \<and> real w / real h \<le> 1.1 \<and> d < 60 then Some Shorts else Some Video)"
  using assms by (simp add: rule_type_iff)

lemma youtube_rule_zero_duration:
  assumes "videoDuration st = Some (Finite 0)"
  shows "getYouTubeRuleType st = None"
  using assms by (simp add: rule_type_iff split: option.splits)

lemma enforce_unfold:
  assumes "getYouTubeRuleType st = Some rt" and "platformSettings st Youtube \<noteq> rt"
  shows "enforceYouTubeRules st s
           = saveDistributionConfigs (st\<lparr>platformSettings := (platformSettings st)(Youtube := rt)\<rparr>) s
               (map (\<lambda>c. if platform c = Youtube then c\<lparr>postType := rt\<rparr> else c)
                  (distributionConfigs st))"
  using assms by (simp add: enforceYouTubeRules_def updatePostTypeForPlatform_def Let_def)

lemma retyped_mem:
  assumes "c \<in> set (map (\<lambda>c. if platform c = p then c\<lparr>postType := t\<rparr> else c) cs)"
    and "platform c = p"
  shows "postType c = t"
proof -
  from assms(1) have "c \<in> (\<lambda>c. if platform c = p then c\<lparr>postType := t\<rparr> else c) ` set cs"
    by (simp only: set_map)
  then show ?thesis
  proof (rule imageE)
    fix c0
    assume c0: "c = (if platform c0 = p then c0\<lparr>postType := t\<rparr> else c0)"
    show ?thesis
    proof (cases "platform c0 = p")
      case True
      with c0 show ?thesis by simp
    next
      case False
      with c0 assms(2) show ?thesis by simp
    qed
  qed
qed

lemma retyped_all:
  "\<forall>c\<in>set (map (\<lambda>c. if platform c = p then c\<lparr>postType := t\<rparr> else c) cs).
      platform c = p \<longrightarrow> postType c = t"
  by (intro ballI impI) (rule retyped_mem)

lemma enforce_effect:
  assumes r: "getYouTubeRuleType st = Some rt" and ne: "platformSettings st Youtube \<noteq> rt"
  shows "platformSettings (fst (enforceYouTubeRules st s)) Youtube = rt"
    and "distributionConfigs (fst (enforceYouTubeRules st s))
            = map (\<lambda>c. if platform c = Youtube then c\<lparr>postType := rt\<rparr> else c) (distributionConfigs st)"
    and "\<forall>c\<in>set (distributionConfigs (fst (enforceYouTubeRules st s))).
              platform c = Youtube \<longrightarrow> postType c = rt"
    and "getDoc s (videoId (localVideo st)) \<noteq> None \<Longrightarrow>
             map_option distributionConfig (getDoc (snd (enforceYouTubeRules st s)) (videoId (localVideo st)))
               = Some (Some (distributionConfigs (fst (enforceYouTubeRules st s))))"
proof -
  note e = enforce_unfold [OF r ne, of s]
  show "platformSettings (fst (enforceYouTubeRules st s)) Youtube = rt"
    unfolding e by (rule save_settings [OF retyped_all]) simp
  show c: "distributionConfigs (fst (enforceYouTubeRules st s))
            = map (\<lambda>c. if platform c = Youtube then c\<lparr>postType := rt\<rparr> else c) (distributionConfigs st)"
    unfolding e by (rule save_configs)
  show "\<forall>c\<in>set (distributionConfigs (fst (enforceYouTubeRules st s))).
              platform c = Youtube \<longrightarrow> postType c = rt"
    unfolding c by (rule retyped_all)
  show "map_option distributionConfig (getDoc (snd (enforceYouTubeRules st s)) (videoId (localVideo st)))
               = Some (Some (distributionConfigs (fst (enforceYouTubeRules st s))))"
    if "getDoc s (videoId (localVideo st)) \<noteq> None"
    unfolding c unfolding e
    using save_persists [of s "st\<lparr>platformSettings := (platformSettings st)(Youtube := rt)\<rparr>"
        "map (\<lambda>c. if platform c = Youtube then c\<lparr>postType := rt\<rparr> else c) (distributionConfigs st)"] that
    by simp
qed


text \<open>
  C4 (amended). For YouTube, with known dimensions of positive height and a known finite
  duration other than 0, the derived sub-type is \<open>shorts\<close> exactly when
  \<open>width / height \<le> 1.1\<close> (square or vertical) and \<open>duration < 60\<close>, and \<open>video\<close>
  otherwise; a height of 0 gives \<open>video\<close>, and a duration of exactly 0 derives nothing, as
  an unknown one does. When the effect runs after a change of dimensions or duration and
  the derived sub-type differs from the stored one, the stored sub-type of YouTube becomes
  the derived one, every YouTube entry of the configuration gets it (the other entries stay
  as they are), and the rewritten list is persisted when the video document exists.
\<close>

theorem youtube_rule:
  "(videoDimensions st = Some (w, h) \<and> h > 0 \<and> videoDuration st = Some (Finite d) \<and> d \<noteq> 0 \<longrightarrow>
      (getYouTubeRuleType st = Some Shorts \<longleftrightarrow> real w / real h \<le> 1.1 \<and> d < 60)
      \<and> (getYouTubeRuleType st = Some Video \<longleftrightarrow> \<not> (real w / real h \<le> 1.1 \<and> d < 60)))
   \<and> (videoDimensions st = Some (w, 0) \<and> videoDuration st = Some (Finite d) \<and> d \<noteq> 0 \<longrightarrow>
        getYouTubeRuleType st = Some Video)
   \<and> (videoDuration st = Some (Finite 0) \<longrightarrow> getYouTubeRuleType st = None)
   \<and> (getYouTubeRuleType st = Some rt \<and> platformSettings st Youtube \<noteq> rt \<longrightarrow>
        platformSettings (fst (enforceYouTubeRules st s)) Youtube = rt
        \<and> distributionConfigs (fst (enforceYouTubeRules st s))
            = map (\<lambda>c. if platform c = Youtube then c\<lparr>postType := rt\<rparr> else c) (distributionConfigs st)
        \<and> (\<forall>c\<in>set (distributionConfigs (fst (enforceYouTubeRules st s))).
              platform c = Youtube \<longrightarrow> postType c = rt)
        \<and> (getDoc s (videoId (localVideo st)) \<noteq> None \<longrightarrow>
             map_option distributionConfig (getDoc (snd (enforceYouTubeRules st s)) (videoId (localVideo st)))
               = Some (Some (distributionConfigs (fst (enforceYouTubeRules st s))))))"
proof (intro conjI impI; (elim conjE)?)
  assume a: "videoDimensions st = Some (w, h)" "0 < h" "videoDuration st = Some (Finite d)" "d \<noteq> 0"
  from youtube_rule_geometry [OF a(1) a(3) a(4)] a(2)
  show "getYouTubeRuleType st = Some Shorts \<longleftrightarrow> real w / real h \<le> 1.1 \<and> d < 60"
    by simp
  from youtube_rule_geometry [OF a(1) a(3) a(4)] a(2)
  show "getYouTubeRuleType st = Some Video \<longleftrightarrow> \<not> (real w / real h \<le> 1.1 \<and> d < 60)"
    by simp
next
  assume a: "videoDimensions st = Some (w, 0)" "videoDuration st = Some (Finite d)" "d \<noteq> 0"
  from youtube_rule_geometry [OF a] show "getYouTubeRuleType st = Some Video" by simp
next
  assume "videoDuration st = Some (Finite 0)"
  then show "getYouTubeRuleType st = None" by (rule youtube_rule_zero_duration)
next
  assume a: "getYouTubeRuleType st = Some rt" "platformSettings st Youtube \<noteq> rt"
  show "platformSettings (fst (enforceYouTubeRules st s)) Youtube = rt"
    by (rule enforce_effect(1) [OF a])
  show "distributionConfigs (fst (enforceYouTubeRules st s))
            = map (\<lambda>c. if platform c = Youtube then c\<lparr>postType := rt\<rparr> else c) (distributionConfigs st)"
    by (rule enforce_effect(2) [OF a])
  show "\<forall>c\<in>set (distributionConfigs (fst (enforceYouTubeRules st s))).
              platform c = Youtube \<longrightarrow> postType c = rt"
    by (rule enforce_effect(3) [OF a])
  show "map_option distributionConfig (getDoc (snd (enforceYouTubeRules st s)) (videoId (localVideo st)))
               = Some (Some (distributionConfigs (fst (enforceYouTubeRules st s))))"
    if "getDoc s (videoId (localVideo st)) \<noteq> None"
    by (rule enforce_effect(4) [OF a that])
qed

theorem youtube_rule_witness:
  "getYouTubeRuleType (shortsState\<lparr>videoDuration := Some (Finite 45)\<rparr>) = Some Shorts
   \<and> getYouTubeRuleType shortsState = Some Video
   \<and> platformSettings shortsState Youtube = Shorts
   \<and> platformSettings (fst (enforceYouTubeRules shortsState sampleStore)) Youtube = Video
   \<and> distributionConfigs (fst (enforceYouTubeRules shortsState sampleStore))
       = [sampleConfig Youtube ''acc1'' Video, sampleConfig Instagram ''acc2'' Reel,
          sampleConfig Youtube ''acc3'' Video]
   \<and> map_option distributionConfig (getDoc (snd (enforceYouTubeRules shortsState sampleStore)) ''v4'')
       = Some (Some [sampleConfig Youtube ''acc1'' Video, sampleConfig Instagram ''acc2'' Reel,
                     sampleConfig Youtube ''acc3'' Video])
   \<and> getYouTubeRuleType (mediaState 100 0 (Finite 10)) = Some Video
   \<and> getYouTubeRuleType (mediaState 1080 1920 (Finite 0)) = None"
proof -
  have r45: "getYouTubeRuleType (shortsState\<lparr>videoDuration := Some (Finite 45)\<rparr>) = Some Shorts"
    using youtube_rule [of "shortsState\<lparr>videoDuration := Some (Finite 45)\<rparr>" 1080 2160 45]
    by (simp add: shortsState_simps)
  have r90: "getYouTubeRuleType shortsState = Some Video"
    using youtube_rule [of shortsState 1080 2160 90] by (simp add: shortsState_simps)
  have pre: "getYouTubeRuleType shortsState = Some Video \<and> platformSettings shortsState Youtube \<noteq> Video"
    using r90 by (simp add: shortsState_simps)
  note th = youtube_rule [of shortsState 1080 2160 90 Video sampleStore]
  note eff = th [THEN conjunct2, THEN conjunct2, THEN conjunct2, THEN mp, OF pre]
  note p = eff [THEN conjunct1]
  have c: "distributionConfigs (fst (enforceYouTubeRules shortsState sampleStore))
       = [sampleConfig Youtube ''acc1'' Video, sampleConfig Instagram ''acc2'' Reel,
          sampleConfig Youtube ''acc3'' Video]"
    unfolding eff [THEN conjunct2, THEN conjunct1]
    by (simp add: shortsState_simps sampleConfig_simps)
  have ex: "getDoc sampleStore (videoId (localVideo shortsState)) \<noteq> None"
    by (simp add: shortsState_simps getDoc_sampleStore)
  have d: "map_option distributionConfig (getDoc (snd (enforceYouTubeRules shortsState sampleStore)) ''v4'')
       = Some (Some [sampleConfig Youtube ''acc1'' Video, sampleConfig Instagram ''acc2'' Reel,
                     sampleConfig Youtube ''acc3'' Video])"
    using eff [THEN conjunct2, THEN conjunct2, THEN conjunct2, THEN mp, OF ex]
    unfolding c by (simp add: shortsState_simps)
  have s: "platformSettings shortsState Youtube = Shorts" by (simp add: shortsState_simps)
  have zh: "getYouTubeRuleType (mediaState 100 0 (Finite 10)) = Some Video"
    using youtube_rule [of "mediaState 100 0 (Finite 10)" 100 _ 10]
    by (simp add: mediaState_simps)
  have zd: "getYouTubeRuleType (mediaState 1080 1920 (Finite 0)) = None"
    using youtube_rule [of "mediaState 1080 1920 (Finite 0)"]
    by (simp add: mediaState_simps)
  show ?thesis
    by (rule conjI [OF r45 conjI [OF r90 conjI [OF s conjI [OF p conjI [OF c conjI [OF d
          conjI [OF zh zd]]]]]]])
qed

text \<open>
  The claim as stated fails for a vertical video whose known duration is 0: the ratio is at
  most 1.1 and the duration is below 60, yet no sub-type is derived.
\<close>

theorem youtube_rule_counterexample:
  "videoDimensions (mediaState 9 16 (Finite 0)) = Some (9, 16)
   \<and> videoDuration (mediaState 9 16 (Finite 0)) = Some (Finite 0)
   \<and> real 9 / real 16 \<le> 1.1 \<and> (0::real) < 60
   \<and> getYouTubeRuleType (mediaState 9 16 (Finite 0)) = None"
  by (simp add: mediaState_simps rule_type_iff)


section \<open>The approval guard\<close>

lemma has_account_iff:
  "getPlatformConfigs st p \<noteq> [] \<longleftrightarrow> (\<exists>c\<in>set (distributionConfigs st). platform c = p)"
  by (simp add: getPlatformConfigs_def filter_empty_conv)

lemma readiness_iffs:
  "isYouTubeReady st \<longleftrightarrow>
     (Youtube \<in> set (selectedPlatforms st) \<longrightarrow>
        nonBlank (ytTitle (ytData st)) \<and> nonBlank (ytDescription (ytData st)))"
  "isInstagramReady st \<longleftrightarrow>
     (Instagram \<in> set (selectedPlatforms st) \<longrightarrow> nonBlank (smCaption (igData st)))"
  "isTikTokReady st \<longleftrightarrow>
     (Tiktok \<in> set (selectedPlatforms st) \<longrightarrow> nonBlank (smCaption (ttData st)))"
  "hasAccountForYoutube st \<longleftrightarrow>
     (Youtube \<in> set (selectedPlatforms st) \<longrightarrow> (\<exists>c\<in>set (distributionConfigs st). platform c = Youtube))"
  "hasAccountForInstagram st \<longleftrightarrow>
     (Instagram \<in> set (selectedPlatforms st) \<longrightarrow> (\<exists>c\<in>set (distributionConfigs st). platform c = Instagram))"
  "hasAccountForTikTok st \<longleftrightarrow>
     (Tiktok \<in> set (selectedPlatforms st) \<longrightarrow> (\<exists>c\<in>set (distributionConfigs st). platform c = Tiktok))"
  by (auto simp add: isYouTubeReady_def isInstagramReady_def isTikTokReady_def
      hasAccountForYoutube_def hasAccountForInstagram_def hasAccountForTikTok_def
      trim_nonempty has_account_iff)

text \<open>
  C1 (amended). The approve click opens the confirmation exactly when at least one platform
  is toggled on and, for each of YouTube, Instagram and TikTok that is toggled on, its
  required metadata is not blank (title and description for YouTube, the caption for
  Instagram and TikTok, each with a character that \<open>trim\<close> keeps) and it has at least one
  configuration entry. A toggled platform other than these three is not checked. The guard
  is the conjunction of one boolean per platform and rule, and when it fails the click
  leaves the state as it is.
\<close>

theorem approve_guard:
  "(isAllReady st \<longleftrightarrow>
      selectedPlatforms st \<noteq> []
      \<and> (Youtube \<in> set (selectedPlatforms st) \<longrightarrow>
           nonBlank (ytTitle (ytData st)) \<and> nonBlank (ytDescription (ytData st))
           \<and> (\<exists>c\<in>set (distributionConfigs st). platform c = Youtube))
      \<and> (Instagram \<in> set (selectedPlatforms st) \<longrightarrow>
           nonBlank (smCaption (igData st))
           \<and> (\<exists>c\<in>set (distributionConfigs st). platform c = Instagram))
      \<and> (Tiktok \<in> set (selectedPlatforms st) \<longrightarrow>
           nonBlank (smCaption (ttData st))
           \<and> (\<exists>c\<in>set (distributionConfigs st). platform c = Tiktok)))
   \<and> (isAllReady st \<longleftrightarrow>
        selectedPlatforms st \<noteq> []
        \<and> isYouTubeReady st \<and> isInstagramReady st \<and> isTikTokReady st
        \<and> hasAccountForYoutube st \<and> hasAccountForInstagram st \<and> hasAccountForTikTok st)
   \<and> (\<not> isAllReady st \<longrightarrow> handleApproveClick st = st)
   \<and> (isAllReady st \<longrightarrow> showApproveModal (handleApproveClick st))"
proof -
  have a: "isAllReady st \<longleftrightarrow>
        selectedPlatforms st \<noteq> []
        \<and> isYouTubeReady st \<and> isInstagramReady st \<and> isTikTokReady st
        \<and> hasAccountForYoutube st \<and> hasAccountForInstagram st \<and> hasAccountForTikTok st"
    by (simp add: isAllReady_def)
  have b: "isAllReady st \<longleftrightarrow>
      selectedPlatforms st \<noteq> []
      \<and> (Youtube \<in> set (selectedPlatforms st) \<longrightarrow>
           nonBlank (ytTitle (ytData st)) \<and> nonBlank (ytDescription (ytData st))
           \<and> (\<exists>c\<in>set (distributionConfigs st). platform c = Youtube))
      \<and> (Instagram \<in> set (selectedPlatforms st) \<longrightarrow>
           nonBlank (smCaption (igData st))
           \<and> (\<exists>c\<in>set (distributionConfigs st). platform c = Instagram))
      \<and> (Tiktok \<in> set (selectedPlatforms st) \<longrightarrow>
           nonBlank (smCaption (ttData st))
           \<and> (\<exists>c\<in>set (distributionConfigs st). platform c = Tiktok))"
    unfolding a readiness_iffs by blast
  have c: "\<not> isAllReady st \<longrightarrow> handleApproveClick st = st"
    by (simp add: handleApproveClick_def)
  have d: "isAllReady st \<longrightarrow> showApproveModal (handleApproveClick st)"
    by (simp add: handleApproveClick_def)
  show ?thesis by (rule conjI [OF b conjI [OF a conjI [OF c d]]])
qed

theorem approve_guard_witness:
  "isAllReady (approveState [Youtube] [84] [100] [sampleConfig Youtube ''acc1'' Video])
   \<and> showApproveModal (handleApproveClick
        (approveState [Youtube] [84] [100] [sampleConfig Youtube ''acc1'' Video]))
   \<and> \<not> isAllReady (approveState [Youtube] [84] [100] [])
   \<and> isYouTubeReady (approveState [Youtube] [84] [100] [])
   \<and> \<not> hasAccountForYoutube (approveState [Youtube] [84] [100] [])
   \<and> handleApproveClick (approveState [Youtube] [84] [100] [])
       = approveState [Youtube] [84] [100] []"
proof -
  let ?ok = "approveState [Youtube] [84] [100] [sampleConfig Youtube ''acc1'' Video]"
  let ?no = "approveState [Youtube] [84] [100] []"
  have r: "isAllReady ?ok"
    using approve_guard [of ?ok]
    by (simp add: approveState_simps nonBlank_simps sampleConfig_simps)
  with approve_guard [of ?ok] have m: "showApproveModal (handleApproveClick ?ok)" by blast
  have n: "\<not> isAllReady ?no"
    using approve_guard [of ?no] by (simp add: approveState_simps)
  with approve_guard [of ?no] have h: "handleApproveClick ?no = ?no" by blast
  have y: "isYouTubeReady ?no"
    by (simp add: readiness_iffs approveState_simps nonBlank_simps)
  have ac: "\<not> hasAccountForYoutube ?no"
    by (simp add: readiness_iffs approveState_simps)
  show ?thesis by (rule conjI [OF r conjI [OF m conjI [OF n conjI [OF y conjI [OF ac h]]]]])
qed


text \<open>
  The claim as stated fails twice. A title of one space is non-empty, so the specification's
  guard holds, but the code trims it and blocks the approval. And with only Kwai toggled on
  and no configuration entry the code allows the approval, though the toggled platform has
  no account.
\<close>

theorem approve_guard_counterexample:
  "spec_approveAllowed (approveState [Youtube] [32] [100] [sampleConfig Youtube ''acc1'' Video])
   \<and> \<not> isAllReady (approveState [Youtube] [32] [100] [sampleConfig Youtube ''acc1'' Video])
   \<and> isAllReady (approveState [Kwai] [] [] [])
   \<and> \<not> spec_approveAllowed (approveState [Kwai] [] [] [])"
  by (simp add: spec_approveAllowed_def spec_requiredMetadataNonEmpty_def approveState_simps
      isAllReady_def readiness_iffs nonBlank_simps sampleConfig_simps)

section \<open>Status operations and the schedule date\<close>

lemma projectVideos_recalc [simp]:
  "projectVideos (recalcForVideo s snap) pid = projectVideos s pid"
  by (simp add: projectVideos_def recalcForVideo_def split: option.splits)

lemma recalcForVideo_stats:
  assumes "projectId v = Some pid" and "pid \<noteq> []" and "findProject s pid \<noteq> None"
  shows "map_option stats (findProject (recalcForVideo s (Some v)) pid)
           = Some (Some (computeStats (projectVideos s pid)))"
proof -
  from assms(3) obtain p where "findProject s pid = Some p" by auto
  from findProject_recalculate [OF this] assms(1,2) show ?thesis
    by (simp add: recalcForVideo_def)
qed

lemma cancelVideoScheduling_ok:
  assumes "getDoc s vid = Some v"
  shows "\<exists>s'. cancelVideoScheduling s vid = Inr s'
           \<and> getDoc s' vid
               = Some (v\<lparr>status := Approved, scheduledDate := None,
                         distributionConfig :=
                           Some (map stripExternalId
                                   (case distributionConfig v of None \<Rightarrow> [] | Some cs \<Rightarrow> cs))\<rparr>)
           \<and> (\<forall>pid. projectId v = Some pid \<and> pid \<noteq> [] \<and> findProject s pid \<noteq> None \<longrightarrow>
                 map_option stats (findProject s' pid)
                   = Some (Some (computeStats (projectVideos s' pid))))"
proof -
  let ?f = "\<lambda>q. q\<lparr>status := Approved, scheduledDate := None,
                         distributionConfig :=
                           Some (map stripExternalId
                                   (case distributionConfig v of None \<Rightarrow> [] | Some cs \<Rightarrow> cs))\<rparr>"
  from getDoc_updateDoc [OF assms, of ?f]
  obtain s1 where u: "updateDoc s vid ?f = Inr s1" and g: "getDoc s1 vid = Some (?f v)"
    and p: "projects s1 = projects s"
    by auto
  have c: "cancelVideoScheduling s vid = Inr (recalcForVideo s1 (Some v))"
    using assms u by (simp add: cancelVideoScheduling_def Let_def)
  have f: "findProject s1 pid = findProject s pid" for pid
    using p by (simp add: findProject_def)
  have st: "map_option stats (findProject (recalcForVideo s1 (Some v)) pid)
                   = Some (Some (computeStats (projectVideos (recalcForVideo s1 (Some v)) pid)))"
    if "projectId v = Some pid" "pid \<noteq> []" "findProject s pid \<noteq> None" for pid
    using recalcForVideo_stats [of v pid s1] that f by simp
  from c g st show ?thesis by simp
qed

text \<open>
  C7 (amended). For a video whose document exists: a distribution without a schedule time
  sets the status to \<open>published\<close> and sets \<open>scheduledDate\<close> to the current time; a
  distribution with a schedule time sets the status to \<open>scheduled\<close> and \<open>scheduledDate\<close> to
  that time; \<open>cancelVideoScheduling\<close> sets the status to \<open>approved\<close> and removes
  \<open>scheduledDate\<close>; \<open>unapproveVideo\<close>, \<open>dismissVideo\<close> and \<open>approveVideo\<close> change the
  status only and leave \<open>scheduledDate\<close> as it was.
\<close>

theorem scheduledDate_lifecycle:
  "getDoc s vid = Some v \<longrightarrow>
     (\<exists>s'. markVideoAsProcessing now s vid cfgs None = Inr s'
            \<and> map_option status (getDoc s' vid) = Some Published
            \<and> map_option scheduledDate (getDoc s' vid) = Some (Some now))
     \<and> (d \<noteq> [] \<longrightarrow>
          (\<exists>s'. markVideoAsProcessing now s vid cfgs (Some d) = Inr s'
                 \<and> map_option status (getDoc s' vid) = Some Scheduled
                 \<and> map_option scheduledDate (getDoc s' vid) = Some (Some d)))
     \<and> (\<exists>s'. cancelVideoScheduling s vid = Inr s'
              \<and> map_option status (getDoc s' vid) = Some Approved
              \<and> map_option scheduledDate (getDoc s' vid) = Some None)
     \<and> (\<exists>s'. unapproveVideo s vid = Inr s'
              \<and> map_option status (getDoc s' vid) = Some Pending
              \<and> map_option scheduledDate (getDoc s' vid) = Some (scheduledDate v))
     \<and> (\<exists>s'. dismissVideo s vid = Inr s'
              \<and> map_option status (getDoc s' vid) = Some Dismissed
              \<and> map_option scheduledDate (getDoc s' vid) = Some (scheduledDate v))
     \<and> (\<exists>s'. approveVideo s vid = Inr s'
              \<and> map_option status (getDoc s' vid) = Some Approved
              \<and> map_option scheduledDate (getDoc s' vid) = Some (scheduledDate v))"
proof (intro impI conjI)
  assume v: "getDoc s vid = Some v"
  from markVideoAsProcessing_ok [OF v, of now cfgs None]
  show "\<exists>s'. markVideoAsProcessing now s vid cfgs None = Inr s'
            \<and> map_option status (getDoc s' vid) = Some Published
            \<and> map_option scheduledDate (getDoc s' vid) = Some (Some now)"
    by (auto simp add: present_def)
  from cancelVideoScheduling_ok [OF v]
  show "\<exists>s'. cancelVideoScheduling s vid = Inr s'
              \<and> map_option status (getDoc s' vid) = Some Approved
              \<and> map_option scheduledDate (getDoc s' vid) = Some None"
    by auto
  from setStatus_ok [OF v, of Pending]
  show "\<exists>s'. unapproveVideo s vid = Inr s'
              \<and> map_option status (getDoc s' vid) = Some Pending
              \<and> map_option scheduledDate (getDoc s' vid) = Some (scheduledDate v)"
    by (auto simp add: unapproveVideo_def)
  from setStatus_ok [OF v, of Dismissed]
  show "\<exists>s'. dismissVideo s vid = Inr s'
              \<and> map_option status (getDoc s' vid) = Some Dismissed
              \<and> map_option scheduledDate (getDoc s' vid) = Some (scheduledDate v)"
    by (auto simp add: dismissVideo_def)
  from setStatus_ok [OF v, of Approved]
  show "\<exists>s'. approveVideo s vid = Inr s'
              \<and> map_option status (getDoc s' vid) = Some Approved
              \<and> map_option scheduledDate (getDoc s' vid) = Some (scheduledDate v)"
    by (auto simp add: approveVideo_def)
next
  assume v: "getDoc s vid = Some v" and d: "d \<noteq> []"
  from markVideoAsProcessing_ok [OF v, of now cfgs "Some d"] d
  show "\<exists>s'. markVideoAsProcessing now s vid cfgs (Some d) = Inr s'
                 \<and> map_option status (getDoc s' vid) = Some Scheduled
                 \<and> map_option scheduledDate (getDoc s' vid) = Some (Some d)"
    by (auto simp add: present_def)
qed

theorem scheduledDate_lifecycle_witness:
  "getDoc scheduledStore ''v3'' = Some scheduledVideo
   \<and> (\<exists>s'. cancelVideoScheduling scheduledStore ''v3'' = Inr s'
         \<and> map_option status (getDoc s' ''v3'') = Some Approved
         \<and> map_option scheduledDate (getDoc s' ''v3'') = Some None)
   \<and> (\<exists>s'. markVideoAsProcessing ''2026-11-03T10:00:00.000Z'' scheduledStore ''v3'' []
               (Some ''2026-12-24T18:00:00.000Z'') = Inr s'
         \<and> map_option status (getDoc s' ''v3'') = Some Scheduled
         \<and> map_option scheduledDate (getDoc s' ''v3'') = Some (Some ''2026-12-24T18:00:00.000Z''))"
proof -
  note th = scheduledDate_lifecycle [of scheduledStore "''v3''" scheduledVideo
      "''2026-11-03T10:00:00.000Z''" "[]" "''2026-12-24T18:00:00.000Z''", THEN mp,
      OF getDoc_scheduledStore(1)]
  have ne: "''2026-12-24T18:00:00.000Z'' \<noteq> []" by simp
  show ?thesis
    by (rule conjI [OF getDoc_scheduledStore(1)
          conjI [OF th [THEN conjunct2, THEN conjunct2, THEN conjunct1]
                    th [THEN conjunct2, THEN conjunct1, THEN mp, OF ne]]])
qed


text \<open>
  The claim as stated fails: an immediate distribution leaves the video \<open>published\<close> with
  a \<open>scheduledDate\<close> (the time of the call), and unapproving a scheduled video leaves it
  \<open>pending\<close> with its old \<open>scheduledDate\<close>.
\<close>

theorem scheduledDate_lifecycle_counterexample:
  "(\<exists>s'. markVideoAsProcessing ''2026-11-03T10:00:00.000Z'' scheduledStore ''v2'' [] None = Inr s'
         \<and> map_option status (getDoc s' ''v2'') = Some Published
         \<and> map_option scheduledDate (getDoc s' ''v2'') = Some (Some ''2026-11-03T10:00:00.000Z''))
   \<and> (\<exists>s'. unapproveVideo scheduledStore ''v3'' = Inr s'
         \<and> map_option status (getDoc s' ''v3'') = Some Pending
         \<and> map_option scheduledDate (getDoc s' ''v3'') = Some (Some ''2026-12-01T09:00:00.000Z''))"
proof -
  from markVideoAsProcessing_ok [OF getDoc_scheduledStore(2), of "''2026-11-03T10:00:00.000Z''" "[]" None]
  have a: "\<exists>s'. markVideoAsProcessing ''2026-11-03T10:00:00.000Z'' scheduledStore ''v2'' [] None = Inr s'
         \<and> map_option status (getDoc s' ''v2'') = Some Published
         \<and> map_option scheduledDate (getDoc s' ''v2'') = Some (Some ''2026-11-03T10:00:00.000Z'')"
    by (auto simp add: present_def)
  from setStatus_ok [OF getDoc_scheduledStore(1), of Pending]
  have b: "\<exists>s'. unapproveVideo scheduledStore ''v3'' = Inr s'
         \<and> map_option status (getDoc s' ''v3'') = Some Pending
         \<and> map_option scheduledDate (getDoc s' ''v3'') = Some (Some ''2026-12-01T09:00:00.000Z'')"
    by (auto simp add: unapproveVideo_def scheduledVideo_simps)
  from a b show ?thesis by (rule conjI)
qed

section \<open>Toggling a target account\<close>

lemma selected_iff:
  "isAccountSelected st p acc
     \<longleftrightarrow> (\<exists>c\<in>set (distributionConfigs st). platform c = p \<and> accountId c = acc)"
  by (simp add: isAccountSelected_def list_ex_iff)

lemma newConfig_simps [simp]:
  "platform (newConfig st p acc) = p"
  "accountId (newConfig st p acc) = acc"
  "postType (newConfig st p acc) = platformSettings st p"
  "externalId (newConfig st p acc) = None"
  "metadata (newConfig st p acc) = seedMetadata st p"
  by (simp_all add: newConfig_def)

lemma toggle_absent:
  assumes "\<not> isAccountSelected st p acc"
  shows "toggleAccountSelection st s p acc
           = saveDistributionConfigs st s (distributionConfigs st @ [newConfig st p acc])"
  using assms by (simp add: toggleAccountSelection_def)

lemma toggle_present:
  assumes "isAccountSelected st p acc"
  shows "toggleAccountSelection st s p acc
           = saveDistributionConfigs st s
               (filter (\<lambda>c. \<not> (platform c = p \<and> accountId c = acc)) (distributionConfigs st))"
  using assms by (simp add: toggleAccountSelection_def)

lemma filter_absent:
  assumes "\<not> (\<exists>c\<in>set cs. platform c = p \<and> accountId c = acc)"
  shows "filter (\<lambda>c. \<not> (platform c = p \<and> accountId c = acc)) cs = cs"
  using assms by (induction cs) auto

lemma toggle_twice_absent:
  assumes "\<not> isAccountSelected st p acc"
  shows "distributionConfigs (fst (toggleAccountSelection st s p acc))
           = distributionConfigs st @ [newConfig st p acc]"
    and "distributionConfigs
           (fst (toggleAccountSelection (fst (toggleAccountSelection st s p acc))
                   (snd (toggleAccountSelection st s p acc)) p acc))
           = distributionConfigs st"
proof -
  let ?r1 = "toggleAccountSelection st s p acc"
  show c1: "distributionConfigs (fst ?r1) = distributionConfigs st @ [newConfig st p acc]"
    unfolding toggle_absent [OF assms] by (rule save_configs)
  have sel: "isAccountSelected (fst ?r1) p acc"
    unfolding selected_iff c1 by simp
  have "distributionConfigs (fst (toggleAccountSelection (fst ?r1) (snd ?r1) p acc))
          = filter (\<lambda>c. \<not> (platform c = p \<and> accountId c = acc)) (distributionConfigs (fst ?r1))"
    unfolding toggle_present [OF sel] by (rule save_configs)
  also have "\<dots> = filter (\<lambda>c. \<not> (platform c = p \<and> accountId c = acc)) (distributionConfigs st)"
    unfolding c1 by simp
  also have "\<dots> = distributionConfigs st"
    using assms unfolding selected_iff by (rule filter_absent)
  finally show "distributionConfigs (fst (toggleAccountSelection (fst ?r1) (snd ?r1) p acc))
           = distributionConfigs st" .
qed

lemma not_selected_filter:
  "\<not> (\<exists>c\<in>set (filter (\<lambda>c. \<not> (platform c = p \<and> accountId c = acc)) cs).
          platform c = p \<and> accountId c = acc)"
  by (induction cs) auto

lemma toggle_twice_present:
  assumes "isAccountSelected st p acc"
  shows "distributionConfigs (fst (toggleAccountSelection st s p acc))
           = filter (\<lambda>c. \<not> (platform c = p \<and> accountId c = acc)) (distributionConfigs st)"
    and "distributionConfigs
           (fst (toggleAccountSelection (fst (toggleAccountSelection st s p acc))
                   (snd (toggleAccountSelection st s p acc)) p acc))
           = filter (\<lambda>c. \<not> (platform c = p \<and> accountId c = acc)) (distributionConfigs st)
             @ [newConfig (fst (toggleAccountSelection st s p acc)) p acc]"
proof -
  let ?r1 = "toggleAccountSelection st s p acc"
  show c1: "distributionConfigs (fst ?r1)
           = filter (\<lambda>c. \<not> (platform c = p \<and> accountId c = acc)) (distributionConfigs st)"
    unfolding toggle_present [OF assms] by (rule save_configs)
  have sel: "\<not> isAccountSelected (fst ?r1) p acc"
    unfolding selected_iff c1 by (rule not_selected_filter)
  have "distributionConfigs (fst (toggleAccountSelection (fst ?r1) (snd ?r1) p acc))
          = distributionConfigs (fst ?r1) @ [newConfig (fst ?r1) p acc]"
    unfolding toggle_absent [OF sel] by (rule save_configs)
  then show "distributionConfigs (fst (toggleAccountSelection (fst ?r1) (snd ?r1) p acc))
           = filter (\<lambda>c. \<not> (platform c = p \<and> accountId c = acc)) (distributionConfigs st)
             @ [newConfig (fst ?r1) p acc]"
    unfolding c1 .
qed

lemma toggle_persists:
  assumes "getDoc s (videoId (localVideo st)) \<noteq> None"
  shows "map_option distributionConfig
           (getDoc (snd (toggleAccountSelection st s p acc)) (videoId (localVideo st)))
           = Some (Some (distributionConfigs (fst (toggleAccountSelection st s p acc))))"
    and "videoId (localVideo (fst (toggleAccountSelection st s p acc))) = videoId (localVideo st)"
  using save_persists [OF assms]
  by (simp_all add: toggleAccountSelection_def Let_def)


lemma length_after_two_toggles:
  assumes "length (filter (\<lambda>c. platform c = p \<and> accountId c = acc) (distributionConfigs st)) \<le> 1"
  shows "length (distributionConfigs
           (fst (toggleAccountSelection (fst (toggleAccountSelection st s p acc))
                   (snd (toggleAccountSelection st s p acc)) p acc)))
           = length (distributionConfigs st)"
proof (cases "isAccountSelected st p acc")
  case False
  from toggle_twice_absent(2) [OF False] show ?thesis by simp
next
  case True
  then have "filter (\<lambda>c. platform c = p \<and> accountId c = acc) (distributionConfigs st) \<noteq> []"
    unfolding selected_iff by (simp add: filter_empty_conv)
  with assms have one: "length (filter (\<lambda>c. platform c = p \<and> accountId c = acc) (distributionConfigs st)) = 1"
    by (cases "filter (\<lambda>c. platform c = p \<and> accountId c = acc) (distributionConfigs st)") simp_all
  have "length (filter (\<lambda>c. platform c = p \<and> accountId c = acc) (distributionConfigs st))
          + length (filter (\<lambda>c. \<not> (platform c = p \<and> accountId c = acc)) (distributionConfigs st))
          = length (distributionConfigs st)"
    by (rule sum_length_filter_compl)
  with one have "length (filter (\<lambda>c. \<not> (platform c = p \<and> accountId c = acc)) (distributionConfigs st)) + 1
          = length (distributionConfigs st)"
    by simp
  then show ?thesis
    unfolding toggle_twice_present(2) [OF True] by simp
qed

lemma toggle_persists_twice:
  assumes "getDoc s (videoId (localVideo st)) \<noteq> None"
  shows "map_option distributionConfig
           (getDoc (snd (toggleAccountSelection (fst (toggleAccountSelection st s p acc))
                      (snd (toggleAccountSelection st s p acc)) p acc)) (videoId (localVideo st)))
           = Some (Some (distributionConfigs
                (fst (toggleAccountSelection (fst (toggleAccountSelection st s p acc))
                        (snd (toggleAccountSelection st s p acc)) p acc))))"
proof -
  let ?r1 = "toggleAccountSelection st s p acc"
  have v: "videoId (localVideo (fst ?r1)) = videoId (localVideo st)"
    by (rule toggle_persists(2) [OF assms])
  from toggle_persists(1) [OF assms, of p acc]
  have "getDoc (snd ?r1) (videoId (localVideo st)) \<noteq> None" by auto
  then have "getDoc (snd ?r1) (videoId (localVideo (fst ?r1))) \<noteq> None"
    unfolding v .
  from toggle_persists(1) [OF this, of p acc] show ?thesis unfolding v .
qed

text \<open>
  C8 (amended). \<open>toggleAccountSelection\<close> removes every entry for (platform, account) if
  one exists, and otherwise appends a new entry seeded with the platform's current shared
  metadata (title, caption and tags for YouTube; the caption only for Instagram and TikTok)
  and the platform's current sub-type; each call persists the whole rewritten list when the
  video document exists. If no entry for (platform, account) exists at the start, two
  calls in a row return the list to its original state. If one exists, the first call
  removes it and the second appends a fresh seeded entry at the end. The length after two
  calls equals the length at the start whenever at most one entry for (platform, account)
  exists at the start.
\<close>

theorem toggle_account_twice:
  "(\<not> isAccountSelected st p acc \<longrightarrow>
      distributionConfigs (fst (toggleAccountSelection st s p acc))
        = distributionConfigs st @ [newConfig st p acc]
      \<and> distributionConfigs
           (fst (toggleAccountSelection (fst (toggleAccountSelection st s p acc))
                   (snd (toggleAccountSelection st s p acc)) p acc))
        = distributionConfigs st)
   \<and> (isAccountSelected st p acc \<longrightarrow>
        distributionConfigs (fst (toggleAccountSelection st s p acc))
          = filter (\<lambda>c. \<not> (platform c = p \<and> accountId c = acc)) (distributionConfigs st)
        \<and> distributionConfigs
             (fst (toggleAccountSelection (fst (toggleAccountSelection st s p acc))
                     (snd (toggleAccountSelection st s p acc)) p acc))
          = filter (\<lambda>c. \<not> (platform c = p \<and> accountId c = acc)) (distributionConfigs st)
            @ [newConfig (fst (toggleAccountSelection st s p acc)) p acc])
   \<and> (length (filter (\<lambda>c. platform c = p \<and> accountId c = acc) (distributionConfigs st)) \<le> 1 \<longrightarrow>
        length (distributionConfigs
           (fst (toggleAccountSelection (fst (toggleAccountSelection st s p acc))
                   (snd (toggleAccountSelection st s p acc)) p acc)))
          = length (distributionConfigs st))
   \<and> (getDoc s (videoId (localVideo st)) \<noteq> None \<longrightarrow>
        map_option distributionConfig
           (getDoc (snd (toggleAccountSelection st s p acc)) (videoId (localVideo st)))
          = Some (Some (distributionConfigs (fst (toggleAccountSelection st s p acc))))
        \<and> map_option distributionConfig
           (getDoc (snd (toggleAccountSelection (fst (toggleAccountSelection st s p acc))
                      (snd (toggleAccountSelection st s p acc)) p acc)) (videoId (localVideo st)))
          = Some (Some (distributionConfigs
                (fst (toggleAccountSelection (fst (toggleAccountSelection st s p acc))
                        (snd (toggleAccountSelection st s p acc)) p acc)))))
   \<and> newConfig st p acc
       = \<lparr>platform = p, accountId = acc, postType = platformSettings st p, externalId = None,
          metadata = seedMetadata st p\<rparr>
   \<and> title (seedMetadata st Youtube) = Some (ytTitle (ytData st))
   \<and> caption (seedMetadata st Youtube) = Some (ytDescription (ytData st))
   \<and> tags (seedMetadata st Youtube) = Some (join [44, 32] (ytTags (ytData st)))
   \<and> caption (seedMetadata st Instagram) = Some (smCaption (igData st))
   \<and> caption (seedMetadata st Tiktok) = Some (smCaption (ttData st))
   \<and> title (seedMetadata st Instagram) = None \<and> tags (seedMetadata st Instagram) = None
   \<and> title (seedMetadata st Tiktok) = None \<and> tags (seedMetadata st Tiktok) = None"
proof (intro conjI impI)
  assume a: "\<not> isAccountSelected st p acc"
  show "distributionConfigs (fst (toggleAccountSelection st s p acc))
        = distributionConfigs st @ [newConfig st p acc]"
    by (rule toggle_twice_absent(1) [OF a])
  show "distributionConfigs
           (fst (toggleAccountSelection (fst (toggleAccountSelection st s p acc))
                   (snd (toggleAccountSelection st s p acc)) p acc))
        = distributionConfigs st"
    by (rule toggle_twice_absent(2) [OF a])
next
  assume a: "isAccountSelected st p acc"
  show "distributionConfigs (fst (toggleAccountSelection st s p acc))
          = filter (\<lambda>c. \<not> (platform c = p \<and> accountId c = acc)) (distributionConfigs st)"
    by (rule toggle_twice_present(1) [OF a])
  show "distributionConfigs
             (fst (toggleAccountSelection (fst (toggleAccountSelection st s p acc))
                     (snd (toggleAccountSelection st s p acc)) p acc))
          = filter (\<lambda>c. \<not> (platform c = p \<and> accountId c = acc)) (distributionConfigs st)
            @ [newConfig (fst (toggleAccountSelection st s p acc)) p acc]"
    by (rule toggle_twice_present(2) [OF a])
next
  assume "length (filter (\<lambda>c. platform c = p \<and> accountId c = acc) (distributionConfigs st)) \<le> 1"
  then show "length (distributionConfigs
           (fst (toggleAccountSelection (fst (toggleAccountSelection st s p acc))
                   (snd (toggleAccountSelection st s p acc)) p acc)))
          = length (distributionConfigs st)"
    by (rule length_after_two_toggles)
next
  assume a: "getDoc s (videoId (localVideo st)) \<noteq> None"
  show "map_option distributionConfig
           (getDoc (snd (toggleAccountSelection st s p acc)) (videoId (localVideo st)))
          = Some (Some (distributionConfigs (fst (toggleAccountSelection st s p acc))))"
    by (rule toggle_persists(1) [OF a])
  show "map_option distributionConfig
           (getDoc (snd (toggleAccountSelection (fst (toggleAccountSelection st s p acc))
                      (snd (toggleAccountSelection st s p acc)) p acc)) (videoId (localVideo st)))
          = Some (Some (distributionConfigs
                (fst (toggleAccountSelection (fst (toggleAccountSelection st s p acc))
                        (snd (toggleAccountSelection st s p acc)) p acc))))"
    by (rule toggle_persists_twice [OF a])
qed (simp_all add: newConfig_def seedMetadata_def)

theorem toggle_account_twice_witness:
  "\<not> isAccountSelected (toggleState [sampleConfig Instagram ''acc2'' Reel]) Youtube ''acc1''
   \<and> distributionConfigs
        (fst (toggleAccountSelection (toggleState [sampleConfig Instagram ''acc2'' Reel])
                sampleStore Youtube ''acc1''))
       = [sampleConfig Instagram ''acc2'' Reel,
          newConfig (toggleState [sampleConfig Instagram ''acc2'' Reel]) Youtube ''acc1'']
   \<and> distributionConfigs
        (fst (toggleAccountSelection
                (fst (toggleAccountSelection (toggleState [sampleConfig Instagram ''acc2'' Reel])
                        sampleStore Youtube ''acc1''))
                (snd (toggleAccountSelection (toggleState [sampleConfig Instagram ''acc2'' Reel])
                        sampleStore Youtube ''acc1''))
                Youtube ''acc1''))
       = [sampleConfig Instagram ''acc2'' Reel]
   \<and> map_option distributionConfig
        (getDoc
           (snd (toggleAccountSelection
                   (fst (toggleAccountSelection (toggleState [sampleConfig Instagram ''acc2'' Reel])
                           sampleStore Youtube ''acc1''))
                   (snd (toggleAccountSelection (toggleState [sampleConfig Instagram ''acc2'' Reel])
                           sampleStore Youtube ''acc1''))
                   Youtube ''acc1''))
           ''v4'')
       = Some (Some [sampleConfig Instagram ''acc2'' Reel])
   \<and> isAccountSelected
        (toggleState [sampleConfig Youtube ''acc1'' Video, sampleConfig Instagram ''acc2'' Reel])
        Youtube ''acc1''
   \<and> map accountId
        (distributionConfigs
           (fst (toggleAccountSelection
                   (fst (toggleAccountSelection
                           (toggleState [sampleConfig Youtube ''acc1'' Video,
                                         sampleConfig Instagram ''acc2'' Reel])
                           sampleStore Youtube ''acc1''))
                   (snd (toggleAccountSelection
                           (toggleState [sampleConfig Youtube ''acc1'' Video,
                                         sampleConfig Instagram ''acc2'' Reel])
                           sampleStore Youtube ''acc1''))
                   Youtube ''acc1'')))
       = [''acc2'', ''acc1'']
   \<and> length
        (distributionConfigs
           (fst (toggleAccountSelection
                   (fst (toggleAccountSelection
                           (toggleState [sampleConfig Youtube ''acc1'' Video,
                                         sampleConfig Instagram ''acc2'' Reel])
                           sampleStore Youtube ''acc1''))
                   (snd (toggleAccountSelection
                           (toggleState [sampleConfig Youtube ''acc1'' Video,
                                         sampleConfig Instagram ''acc2'' Reel])
                           sampleStore Youtube ''acc1''))
                   Youtube ''acc1'')))
       = 2"
proof -
  let ?a = "toggleState [sampleConfig Instagram ''acc2'' Reel]"
  note th = toggle_account_twice [of ?a Youtube "''acc1''" sampleStore]
  have ns: "\<not> isAccountSelected ?a Youtube ''acc1''"
    by (simp add: selected_iff toggleState_simps sampleConfig_simps)
  have ex: "getDoc sampleStore (videoId (localVideo ?a)) \<noteq> None"
    by (simp add: toggleState_simps getDoc_sampleStore)
  note abs = th [THEN conjunct1, THEN mp, OF ns]
  note per = th [THEN conjunct2, THEN conjunct2, THEN conjunct2, THEN conjunct1, THEN mp, OF ex]
  have 1: "distributionConfigs (fst (toggleAccountSelection ?a sampleStore Youtube ''acc1''))
       = [sampleConfig Instagram ''acc2'' Reel, newConfig ?a Youtube ''acc1'']"
    using abs [THEN conjunct1] by (simp add: toggleState_simps)
  have 2: "distributionConfigs (fst (toggleAccountSelection
                (fst (toggleAccountSelection ?a sampleStore Youtube ''acc1''))
                (snd (toggleAccountSelection ?a sampleStore Youtube ''acc1'')) Youtube ''acc1''))
       = [sampleConfig Instagram ''acc2'' Reel]"
    using abs [THEN conjunct2] by (simp add: toggleState_simps)
  have 3: "map_option distributionConfig (getDoc (snd (toggleAccountSelection
                (fst (toggleAccountSelection ?a sampleStore Youtube ''acc1''))
                (snd (toggleAccountSelection ?a sampleStore Youtube ''acc1'')) Youtube ''acc1'')) ''v4'')
       = Some (Some [sampleConfig Instagram ''acc2'' Reel])"
    using per [THEN conjunct2] unfolding 2 by (simp add: toggleState_simps)
  let ?b = "toggleState [sampleConfig Youtube ''acc1'' Video, sampleConfig Instagram ''acc2'' Reel]"
  note thb = toggle_account_twice [of ?b Youtube "''acc1''" sampleStore]
  have sel: "isAccountSelected ?b Youtube ''acc1''"
    by (simp add: selected_iff toggleState_simps sampleConfig_simps)
  note pre = thb [THEN conjunct2, THEN conjunct1, THEN mp, OF sel]
  have 4: "map accountId (distributionConfigs (fst (toggleAccountSelection
                (fst (toggleAccountSelection ?b sampleStore Youtube ''acc1''))
                (snd (toggleAccountSelection ?b sampleStore Youtube ''acc1'')) Youtube ''acc1'')))
       = [''acc2'', ''acc1'']"
    unfolding pre [THEN conjunct2] by (simp add: toggleState_simps sampleConfig_simps)
  have one: "length (filter (\<lambda>c. platform c = Youtube \<and> accountId c = ''acc1'')
                (distributionConfigs ?b)) \<le> 1"
    by (simp add: toggleState_simps sampleConfig_simps)
  have 5: "length (distributionConfigs (fst (toggleAccountSelection
                (fst (toggleAccountSelection ?b sampleStore Youtube ''acc1''))
                (snd (toggleAccountSelection ?b sampleStore Youtube ''acc1'')) Youtube ''acc1''))) = 2"
    using thb [THEN conjunct2, THEN conjunct2, THEN conjunct1, THEN mp, OF one]
    by (simp add: toggleState_simps)
  show ?thesis
    by (rule conjI [OF ns conjI [OF 1 conjI [OF 2 conjI [OF 3 conjI [OF sel conjI [OF 4 5]]]]]])
qed


text \<open>
  The claim as stated fails for a list that already holds the entry: toggling the first of
  two entries twice moves it to the end (freshly seeded), and from two entries for the same
  platform and account two calls leave a single one.
\<close>

theorem toggle_account_twice_counterexample:
  "map platform
     (distributionConfigs
        (fst (toggleAccountSelection
                (fst (toggleAccountSelection
                        (toggleState [sampleConfig Youtube ''acc1'' Video, sampleConfig Instagram ''acc2'' Reel])
                        sampleStore Youtube ''acc1''))
                (snd (toggleAccountSelection
                        (toggleState [sampleConfig Youtube ''acc1'' Video, sampleConfig Instagram ''acc2'' Reel])
                        sampleStore Youtube ''acc1''))
                Youtube ''acc1'')))
     = [Instagram, Youtube]
   \<and> map platform
        (distributionConfigs
           (toggleState [sampleConfig Youtube ''acc1'' Video, sampleConfig Instagram ''acc2'' Reel]))
       = [Youtube, Instagram]
   \<and> length
        (distributionConfigs
           (fst (toggleAccountSelection
                   (fst (toggleAccountSelection
                           (toggleState [sampleConfig Youtube ''acc1'' Video, sampleConfig Youtube ''acc1'' Video])
                           sampleStore Youtube ''acc1''))
                   (snd (toggleAccountSelection
                           (toggleState [sampleConfig Youtube ''acc1'' Video, sampleConfig Youtube ''acc1'' Video])
                           sampleStore Youtube ''acc1''))
                   Youtube ''acc1'')))
       = 1
   \<and> length (distributionConfigs
          (toggleState [sampleConfig Youtube ''acc1'' Video, sampleConfig Youtube ''acc1'' Video])) = 2"
proof -
  let ?a = "toggleState [sampleConfig Youtube ''acc1'' Video, sampleConfig Instagram ''acc2'' Reel]"
  let ?b = "toggleState [sampleConfig Youtube ''acc1'' Video, sampleConfig Youtube ''acc1'' Video]"
  have sa: "isAccountSelected ?a Youtube ''acc1''"
    by (simp add: selected_iff toggleState_simps sampleConfig_simps)
  have sb: "isAccountSelected ?b Youtube ''acc1''"
    by (simp add: selected_iff toggleState_simps sampleConfig_simps)
  have 1: "map platform (distributionConfigs (fst (toggleAccountSelection
                (fst (toggleAccountSelection ?a sampleStore Youtube ''acc1''))
                (snd (toggleAccountSelection ?a sampleStore Youtube ''acc1'')) Youtube ''acc1'')))
     = [Instagram, Youtube]"
    unfolding toggle_twice_present(2) [OF sa]
    by (simp add: toggleState_simps sampleConfig_simps)
  have 2: "map platform (distributionConfigs ?a) = [Youtube, Instagram]"
    by (simp add: toggleState_simps sampleConfig_simps)
  have 3: "length (distributionConfigs (fst (toggleAccountSelection
                (fst (toggleAccountSelection ?b sampleStore Youtube ''acc1''))
                (snd (toggleAccountSelection ?b sampleStore Youtube ''acc1'')) Youtube ''acc1''))) = 1"
    unfolding toggle_twice_present(2) [OF sb]
    by (simp add: toggleState_simps sampleConfig_simps)
  have 4: "length (distributionConfigs ?b) = 2"
    by (simp add: toggleState_simps)
  show ?thesis by (rule conjI [OF 1 conjI [OF 2 conjI [OF 3 4]]])
qed

section \<open>Distribution\<close>

lemma uploadAll_skip:
  assumes "platform a \<noteq> Youtube \<or> findToken integrations (accountId a) = None"
  shows "uploadAll ad integrations video fd w (a # rest)
           = (case uploadAll ad integrations video fd w rest of
                (err, rest', w') \<Rightarrow> (err, a # rest', w'))"
  using assms by auto

lemma uploadAll_fail:
  assumes "platform a = Youtube" and "findToken integrations (accountId a) = Some token"
    and "uploadVideoToYouTube ad w token (storagePath video) (uploadMetadata video a) fd
           = (Inl msg, w1)"
  shows "uploadAll ad integrations video fd w (a # rest) = (Some msg, a # rest, w1)"
  using assms by simp

lemma uploadAll_ok:
  assumes "platform a = Youtube" and "findToken integrations (accountId a) = Some token"
    and "uploadVideoToYouTube ad w token (storagePath video) (uploadMetadata video a) fd
           = (Inr rid, w1)"
  shows "uploadAll ad integrations video fd w (a # rest)
           = (case uploadAll ad integrations video fd
                     (case playlistId (metadata a) of
                        Given pl \<Rightarrow> if pl = [] then w1 else addVideoToPlaylist ad w1 token pl rid
                      | _ \<Rightarrow> w1) rest of
                (err, rest', w') \<Rightarrow> (err, a\<lparr>externalId := Some rid\<rparr> # rest', w'))"
  using assms by (simp add: Let_def)

lemma uploadAll_stops:
  assumes "uploadAll ad integrations video fd w pre = (None, pre', w1)"
    and "platform c = Youtube"
    and "findToken integrations (accountId c) = Some token"
    and "uploadVideoToYouTube ad w1 token (storagePath video) (uploadMetadata video c) fd
           = (Inl msg, w2)"
  shows "uploadAll ad integrations video fd w (pre @ c # post) = (Some msg, pre' @ c # post, w2)"
  using assms(1)
proof (induction pre arbitrary: w pre')
  case Nil
  then have "w = w1" "pre' = []" by simp_all
  with uploadAll_fail [OF assms(2,3,4)] show ?case by simp
next
  case (Cons a pre)
  show ?case
  proof (cases "platform a \<noteq> Youtube \<or> findToken integrations (accountId a) = None")
    case True
    obtain e r wr where r: "uploadAll ad integrations video fd w pre = (e, r, wr)"
      by (cases "uploadAll ad integrations video fd w pre")
    with Cons.prems have "e = None" "wr = w1" "pre' = a # r"
      unfolding uploadAll_skip [OF True] by simp_all
    with Cons.IH [of w r] r show ?thesis
      unfolding append_Cons uploadAll_skip [OF True] by simp
  next
    case False
    then obtain tok where y: "platform a = Youtube"
      and t: "findToken integrations (accountId a) = Some tok"
      by auto
    obtain res wa where u: "uploadVideoToYouTube ad w tok (storagePath video) (uploadMetadata video a) fd = (res, wa)"
      by (cases "uploadVideoToYouTube ad w tok (storagePath video) (uploadMetadata video a) fd")
    show ?thesis
    proof (cases res)
      case (Inl m)
      with u have "uploadVideoToYouTube ad w tok (storagePath video) (uploadMetadata video a) fd = (Inl m, wa)"
        by simp
      from uploadAll_fail [OF y t this] Cons.prems show ?thesis by simp
    next
      case (Inr rid)
      let ?wb = "(case playlistId (metadata a) of
                    Given pl \<Rightarrow> if pl = [] then wa else addVideoToPlaylist ad wa tok pl rid
                  | _ \<Rightarrow> wa)"
      obtain e r wr where r: "uploadAll ad integrations video fd ?wb pre = (e, r, wr)"
        by (cases "uploadAll ad integrations video fd ?wb pre")
      from u Inr have u': "uploadVideoToYouTube ad w tok (storagePath video) (uploadMetadata video a) fd = (Inr rid, wa)"
        by simp
      from Cons.prems r have "e = None" "wr = w1" "pre' = a\<lparr>externalId := Some rid\<rparr> # r"
        unfolding uploadAll_ok [OF y t u'] by simp_all
      with Cons.IH [of ?wb r] r show ?thesis
        unfolding append_Cons uploadAll_ok [OF y t u'] by simp
    qed
  qed
qed


lemma uploadAll_recorded:
  assumes "uploadAll ad integrations video fd w cs = (None, cs', w')"
  shows "list_all2
           (\<lambda>c c'. if platform c = Youtube \<and> findToken integrations (accountId c) \<noteq> None
                   then \<exists>token rid w0 w1.
                          findToken integrations (accountId c) = Some token
                          \<and> uploadVideoToYouTube ad w0 token (storagePath video)
                                (uploadMetadata video c) fd = (Inr rid, w1)
                          \<and> c' = c\<lparr>externalId := Some rid\<rparr>
                   else c' = c)
           cs cs'"
proof -
  define R where "R = (\<lambda>c c'. if platform c = Youtube \<and> findToken integrations (accountId c) \<noteq> None
                   then \<exists>token rid w0 w1.
                          findToken integrations (accountId c) = Some token
                          \<and> uploadVideoToYouTube ad w0 token (storagePath video)
                                (uploadMetadata video c) fd = (Inr rid, w1)
                          \<and> c' = c\<lparr>externalId := Some rid\<rparr>
                   else c' = c)"
  have "list_all2 R cs cs'"
    using assms
  proof (induction cs arbitrary: w cs')
    case Nil
    then show ?case by simp
  next
    case (Cons a cs)
    show ?case
    proof (cases "platform a \<noteq> Youtube \<or> findToken integrations (accountId a) = None")
      case True
      obtain e r wr where r: "uploadAll ad integrations video fd w cs = (e, r, wr)"
        by (cases "uploadAll ad integrations video fd w cs")
      with Cons.prems have e: "e = None" "wr = w'" and c: "cs' = a # r"
        unfolding uploadAll_skip [OF True] by simp_all
      from r e have "uploadAll ad integrations video fd w cs = (None, r, w')" by simp
      then have tl: "list_all2 R cs r" by (rule Cons.IH)
      from True have hd: "R a a" by (auto simp add: R_def)
      from hd tl show ?thesis unfolding c by simp
    next
      case False
      then obtain tok where y: "platform a = Youtube"
        and t: "findToken integrations (accountId a) = Some tok"
        by auto
      obtain res wa where u: "uploadVideoToYouTube ad w tok (storagePath video) (uploadMetadata video a) fd = (res, wa)"
        by (cases "uploadVideoToYouTube ad w tok (storagePath video) (uploadMetadata video a) fd")
      show ?thesis
      proof (cases res)
        case (Inl m)
        with u have "uploadVideoToYouTube ad w tok (storagePath video) (uploadMetadata video a) fd = (Inl m, wa)"
          by simp
        from uploadAll_fail [OF y t this] Cons.prems show ?thesis by simp
      next
        case (Inr rid)
        let ?wb = "(case playlistId (metadata a) of
                      Given pl \<Rightarrow> if pl = [] then wa else addVideoToPlaylist ad wa tok pl rid
                    | _ \<Rightarrow> wa)"
        obtain e r wr where r: "uploadAll ad integrations video fd ?wb cs = (e, r, wr)"
          by (cases "uploadAll ad integrations video fd ?wb cs")
        from u Inr have u': "uploadVideoToYouTube ad w tok (storagePath video) (uploadMetadata video a) fd = (Inr rid, wa)"
          by simp
        from Cons.prems r have e: "e = None" "wr = w'" and c: "cs' = a\<lparr>externalId := Some rid\<rparr> # r"
          unfolding uploadAll_ok [OF y t u'] by simp_all
        from r e have "uploadAll ad integrations video fd ?wb cs = (None, r, w')" by simp
        then have tl: "list_all2 R cs r" by (rule Cons.IH)
        have hd: "R a (a\<lparr>externalId := Some rid\<rparr>)"
          unfolding R_def using y t u' by auto
        from hd tl show ?thesis unfolding c by simp
      qed
    qed
  qed
  then show ?thesis unfolding R_def .
qed

lemma handleConfirm_failure:
  assumes "activeConfigsOf configs = pre @ c # post"
    and "uploadAll ad integrations video (if isScheduling then Some picked else None) w pre
           = (None, pre', w1)"
    and "platform c = Youtube"
    and "findToken integrations (accountId c) = Some token"
    and "uploadVideoToYouTube ad w1 token (storagePath video) (uploadMetadata video c)
           (if isScheduling then Some picked else None) = (Inl msg, w2)"
  shows "handleConfirm ad integrations video configs isScheduling picked now w s
           = \<lparr>outWorld = w2, outStore = s, outConfigs = pre' @ c # post, outAlert = Some msg\<rparr>"
  using uploadAll_stops [OF assms(2,3,4,5), of post] assms(1)
  by (simp add: handleConfirm_def Let_def)

lemma distribute_stops_at_first_failure:
  assumes "activeConfigsOf configs = pre @ c # post"
    and "uploadAll ad integrations video (if isScheduling then Some picked else None) w pre
           = (None, pre', w1)"
    and "platform c = Youtube"
    and "findToken integrations (accountId c) = Some token"
    and "uploadVideoToYouTube ad w1 token (storagePath video) (uploadMetadata video c)
           (if isScheduling then Some picked else None) = (Inl msg, w2)"
  shows "handleConfirm ad integrations video configs isScheduling picked now w s
           = \<lparr>outWorld = w2, outStore = s, outConfigs = pre' @ c # post, outAlert = Some msg\<rparr>"
    and "list_all2
           (\<lambda>c c'. if platform c = Youtube \<and> findToken integrations (accountId c) \<noteq> None
                   then \<exists>token rid w0 w1.
                          findToken integrations (accountId c) = Some token
                          \<and> uploadVideoToYouTube ad w0 token (storagePath video)
                                (uploadMetadata video c)
                                (if isScheduling then Some picked else None) = (Inr rid, w1)
                          \<and> c' = c\<lparr>externalId := Some rid\<rparr>
                   else c' = c)
           pre pre'"
proof -
  show "handleConfirm ad integrations video configs isScheduling picked now w s
       = \<lparr>outWorld = w2, outStore = s, outConfigs = pre' @ c # post, outAlert = Some msg\<rparr>"
    by (rule handleConfirm_failure [OF assms])
  show "list_all2
           (\<lambda>c c'. if platform c = Youtube \<and> findToken integrations (accountId c) \<noteq> None
                   then \<exists>token rid w0 w1.
                          findToken integrations (accountId c) = Some token
                          \<and> uploadVideoToYouTube ad w0 token (storagePath video)
                                (uploadMetadata video c)
                                (if isScheduling then Some picked else None) = (Inr rid, w1)
                          \<and> c' = c\<lparr>externalId := Some rid\<rparr>
                   else c' = c)
           pre pre'"
    by (rule uploadAll_recorded [OF assms(2)])
qed

text \<open>
  When every upload succeeds, the list with the recorded remote ids is what
  \<open>markVideoAsProcessing\<close> persists, together with the new status.
\<close>

lemma handleConfirm_success:
  assumes "activeConfigsOf configs \<noteq> []"
    and "uploadAll ad integrations video (if isScheduling then Some picked else None) w
           (activeConfigsOf configs) = (None, cs, w')"
    and "getDoc s (videoId video) = Some v"
  shows "outAlert (handleConfirm ad integrations video configs isScheduling picked now w s) = None"
    and "outConfigs (handleConfirm ad integrations video configs isScheduling picked now w s) = cs"
    and "getDoc (outStore (handleConfirm ad integrations video configs isScheduling picked now w s))
           (videoId video)
           = Some (v\<lparr>status := (if present (if isScheduling then Some picked else None)
                                  then Scheduled else Published),
                     platforms := Some (map platform cs),
                     distributionConfig := Some cs,
                     scheduledDate := (if present (if isScheduling then Some picked else None)
                                       then (if isScheduling then Some picked else None)
                                       else Some now)\<rparr>)"
proof -
  from markVideoAsProcessing_ok [OF assms(3), of now cs "if isScheduling then Some picked else None"]
  obtain s' where m: "markVideoAsProcessing now s (videoId video) cs
                        (if isScheduling then Some picked else None) = Inr s'"
    and g: "getDoc s' (videoId video)
           = Some (v\<lparr>status := (if present (if isScheduling then Some picked else None)
                                  then Scheduled else Published),
                     platforms := Some (map platform cs),
                     distributionConfig := Some cs,
                     scheduledDate := (if present (if isScheduling then Some picked else None)
                                       then (if isScheduling then Some picked else None)
                                       else Some now)\<rparr>)"
    by blast
  have h: "handleConfirm ad integrations video configs isScheduling picked now w s
             = \<lparr>outWorld = w', outStore = s', outConfigs = cs, outAlert = None\<rparr>"
    using assms(1,2) m by (simp add: handleConfirm_def handleDistribute_def Let_def)
  show "outAlert (handleConfirm ad integrations video configs isScheduling picked now w s) = None"
    unfolding h by simp
  show "outConfigs (handleConfirm ad integrations video configs isScheduling picked now w s) = cs"
    unfolding h by simp
  show "getDoc (outStore (handleConfirm ad integrations video configs isScheduling picked now w s))
           (videoId video)
           = Some (v\<lparr>status := (if present (if isScheduling then Some picked else None)
                                  then Scheduled else Published),
                     platforms := Some (map platform cs),
                     distributionConfig := Some cs,
                     scheduledDate := (if present (if isScheduling then Some picked else None)
                                       then (if isScheduling then Some picked else None)
                                       else Some now)\<rparr>)"
    unfolding h using g by simp
qed

lemma sample_success:
  "map_option (map_option (map externalId) \<circ> distributionConfig)
     (getDoc
        (outStore (handleConfirm (logAdapter 404) sampleIntegrations oneChannelVideo
           (initialConfigs oneChannelVideo) False [] ''2026-11-03T10:00:00.000Z'' [] oneChannelStore))
        ''v2'')
     = Some (Some [Some ''yt-A'', None])"
proof -
  have a: "activeConfigsOf (initialConfigs oneChannelVideo)
             = [sampleConfig Youtube ''acc1'' Video, sampleConfig Instagram ''acc2'' Reel]"
    by (simp add: activeConfigsOf_def initialConfigs_def oneChannelVideo_def sampleConfig_simps)
  have ne: "activeConfigsOf (initialConfigs oneChannelVideo) \<noteq> []"
    unfolding a by simp
  have u: "uploadAll (logAdapter 404) sampleIntegrations oneChannelVideo (if False then Some [] else None) []
             (activeConfigsOf (initialConfigs oneChannelVideo))
           = (None, [(sampleConfig Youtube ''acc1'' Video)\<lparr>externalId := Some ''yt-A''\<rparr>,
                     sampleConfig Instagram ''acc2'' Reel], [''upload tokA''])"
    unfolding a
    by (simp add: sampleConfig_simps sample_tokens logAdapter_def sampleConfig_def Let_def)
  have g: "getDoc oneChannelStore (videoId oneChannelVideo) = Some oneChannelVideo"
    by (simp add: oneChannel_simps)
  from handleConfirm_success(3) [OF ne u g, of "''2026-11-03T10:00:00.000Z''"]
  show ?thesis by (simp add: oneChannel_simps sampleConfig_simps)
qed

text \<open>
  C2. The claim asks that an entry whose adapter call succeeded keeps its recorded
  \<open>externalId\<close>, each success persisting the configuration list. Take an approved asset
  with entries for two YouTube channels and one Instagram account, where the upload to the
  first channel succeeds and the upload to the second fails. The code stops at the failure
  (the platform received the two uploads and nothing else), shows the error and leaves the
  stored asset \<open>approved\<close>; but the remote id of the first upload is written to the entry
  in memory only, and the stored configuration has no \<open>externalId\<close> at all. On a run
  without a failure the ids are persisted (\<open>handleConfirm_success\<close>).
\<close>

theorem distribute_partial_failure_loses_id:
  "outWorld (handleConfirm (logAdapter 404) sampleIntegrations approvedVideo
        (initialConfigs approvedVideo) False [] ''2026-11-03T10:00:00.000Z'' [] approvedStore)
     = [''upload tokA'', ''upload tokB'']
   \<and> outAlert (handleConfirm (logAdapter 404) sampleIntegrations approvedVideo
        (initialConfigs approvedVideo) False [] ''2026-11-03T10:00:00.000Z'' [] approvedStore)
       = Some ''quotaExceeded''
   \<and> map externalId
        (outConfigs (handleConfirm (logAdapter 404) sampleIntegrations approvedVideo
           (initialConfigs approvedVideo) False [] ''2026-11-03T10:00:00.000Z'' [] approvedStore))
       = [Some ''yt-A'', None, None]
   \<and> map_option status
        (getDoc
           (outStore (handleConfirm (logAdapter 404) sampleIntegrations approvedVideo
              (initialConfigs approvedVideo) False [] ''2026-11-03T10:00:00.000Z'' [] approvedStore))
           ''v2'')
       = Some Approved
   \<and> map_option (map_option (map externalId) \<circ> distributionConfig)
        (getDoc
           (outStore (handleConfirm (logAdapter 404) sampleIntegrations approvedVideo
              (initialConfigs approvedVideo) False [] ''2026-11-03T10:00:00.000Z'' [] approvedStore))
           ''v2'')
       = Some (Some [None, None, None])"
proof -
  have f1: "uploadAll (logAdapter 404) sampleIntegrations approvedVideo (if False then Some [] else None) []
        [sampleConfig Youtube ''acc1'' Video]
       = (None, [(sampleConfig Youtube ''acc1'' Video)\<lparr>externalId := Some ''yt-A''\<rparr>], [''upload tokA''])"
    using sample_upload_first [of 404] by simp
  have p: "platform (sampleConfig Youtube ''acc3'' Video) = Youtube"
    by (simp add: sampleConfig_simps)
  have tk: "findToken sampleIntegrations (accountId (sampleConfig Youtube ''acc3'' Video)) = Some ''tokB''"
    by (simp add: sampleConfig_simps sample_tokens)
  have f2: "uploadVideoToYouTube (logAdapter 404) [''upload tokA''] ''tokB'' (storagePath approvedVideo)
        (uploadMetadata approvedVideo (sampleConfig Youtube ''acc3'' Video))
        (if False then Some [] else None) = (Inl ''quotaExceeded'', [''upload tokA'', ''upload tokB''])"
    using sample_upload_second [of 404] by simp
  have "handleConfirm (logAdapter 404) sampleIntegrations approvedVideo (initialConfigs approvedVideo)
      False [] ''2026-11-03T10:00:00.000Z'' [] approvedStore
     = \<lparr>outWorld = [''upload tokA'', ''upload tokB''], outStore = approvedStore,
        outConfigs = [(sampleConfig Youtube ''acc1'' Video)\<lparr>externalId := Some ''yt-A''\<rparr>]
                       @ sampleConfig Youtube ''acc3'' Video # [sampleConfig Instagram ''acc2'' Reel],
        outAlert = Some ''quotaExceeded''\<rparr>"
    by (rule handleConfirm_failure [OF sample_active f1 p tk f2])
  then show ?thesis
    by (simp add: sampleConfig_simps getDoc_approvedStore approvedVideo_simps)
qed

section \<open>Cancelling a schedule\<close>

lemma delete_not_found:
  assumes "fetchDelete ad w token eid = (HttpResponse 404 body, w')"
  shows "deleteVideoFromYouTube ad w token eid = (Inr (), w')"
  using assms by (simp add: deleteVideoFromYouTube_def)

lemma delete_other_error:
  assumes "fetchDelete ad w token eid = (HttpResponse code body, w')"
    and "code \<noteq> 404" and "\<not> (200 \<le> code \<and> code \<le> 299)"
  shows "deleteVideoFromYouTube ad w token eid
           = (Inl (AdapterError
                     (''Failed to delete from YouTube ('' @ showNat code @ ''): '' @ body)), w')"
  using assms by (simp add: deleteVideoFromYouTube_def)

lemma delete_ok:
  assumes "fetchDelete ad w token eid = (HttpResponse code body, w')"
    and "200 \<le> code" and "code \<le> 299"
  shows "deleteVideoFromYouTube ad w token eid = (Inr (), w')"
  using assms by (simp add: deleteVideoFromYouTube_def)

lemma find_first:
  assumes "\<forall>x\<in>set pre. \<not> P x" and "P c"
  shows "find P (pre @ c # post) = Some c"
  using assms by (induction pre) simp_all

text \<open>
  The deletion step looks only at the first YouTube entry that carries an \<open>externalId\<close>:
  the entries after it play no part.
\<close>

lemma deleteRemote_first_only:
  assumes "distributionConfig pv = Some (pre @ c # post)"
    and "\<forall>x\<in>set pre. \<not> (platform x = Youtube \<and> present (externalId x))"
    and "platform c = Youtube" and "externalId c = Some eid" and "eid \<noteq> []"
    and "findToken integrations (accountId c) = Some token"
  shows "deleteRemote ad integrations pv w = deleteVideoFromYouTube ad w token eid"
proof -
  have "find (\<lambda>c. platform c = Youtube \<and> present (externalId c)) (pre @ c # post) = Some c"
    using assms(2) by (rule find_first) (simp add: assms(3,4,5) present_def)
  with assms(1,4,6) show ?thesis by (simp add: deleteRemote_def)
qed

lemma deleteRemote_single:
  assumes "distributionConfig pv = Some [c]" and "platform c = Youtube"
    and "externalId c = Some eid" and "eid \<noteq> []"
    and "findToken integrations (accountId c) = Some token"
  shows "deleteRemote ad integrations pv w = deleteVideoFromYouTube ad w token eid"
  using assms by (simp add: deleteRemote_def present_def)

lemma onConfirmCancel_abort:
  assumes "previewVideo st = Some pv" and "deleteRemote ad integrations pv w = (Inl e, w')"
  shows "onConfirmCancel ad integrations st w s
           = \<lparr>cancelState = st\<lparr>showCancelModal := False\<rparr>, cancelWorld = w', cancelStore = s,
              cancelAlert = True\<rparr>"
  using assms by (simp add: onConfirmCancel_def)

lemma onConfirmCancel_ok:
  assumes "previewVideo st = Some pv" and "deleteRemote ad integrations pv w = (Inr (), w')"
    and "cancelVideoScheduling s (videoId pv) = Inr s'"
  shows "onConfirmCancel ad integrations st w s
           = \<lparr>cancelState = \<lparr>previewVideo = None, showCancelModal = False\<rparr>, cancelWorld = w',
              cancelStore = s', cancelAlert = False\<rparr>"
  using assms by (simp add: onConfirmCancel_def)

lemma stripped_all: "list_all (\<lambda>c. externalId c = None) (map stripExternalId cs)"
  by (induction cs) (simp_all add: stripExternalId_def)

lemma cancel_guard:
  "showCancelModal (handleCancelClick st)
     \<longleftrightarrow> showCancelModal st \<or> (\<exists>pv. previewVideo st = Some pv \<and> status pv = Scheduled)"
  by (simp add: handleCancelClick_def split: option.splits)

text \<open>
  When the deletion step raises no error and the video document exists, the local state is
  cleared: \<open>scheduledDate\<close> is removed, every \<open>externalId\<close> is stripped, the status becomes
  \<open>approved\<close> and the stats of the video's project are recomputed.
\<close>

lemma cancel_clears_local_state:
  assumes "previewVideo st = Some pv" and "deleteRemote ad integrations pv w = (Inr (), w')"
    and "getDoc s (videoId pv) = Some v"
  shows "cancelAlert (onConfirmCancel ad integrations st w s) = False"
    and "cancelWorld (onConfirmCancel ad integrations st w s) = w'"
    and "getDoc (cancelStore (onConfirmCancel ad integrations st w s)) (videoId pv)
            = Some (v\<lparr>status := Approved, scheduledDate := None,
                      distributionConfig :=
                        Some (map stripExternalId
                                (case distributionConfig v of None \<Rightarrow> [] | Some cs \<Rightarrow> cs))\<rparr>)"
    and "\<forall>pid. projectId v = Some pid \<and> pid \<noteq> [] \<and> findProject s pid \<noteq> None \<longrightarrow>
              map_option stats
                (findProject (cancelStore (onConfirmCancel ad integrations st w s)) pid)
                = Some (Some (computeStats
                     (projectVideos (cancelStore (onConfirmCancel ad integrations st w s)) pid)))"
proof -
  from cancelVideoScheduling_ok [OF assms(3)] obtain s' where
    c: "cancelVideoScheduling s (videoId pv) = Inr s'"
    and g: "getDoc s' (videoId pv)
              = Some (v\<lparr>status := Approved, scheduledDate := None,
                        distributionConfig :=
                          Some (map stripExternalId
                                  (case distributionConfig v of None \<Rightarrow> [] | Some cs \<Rightarrow> cs))\<rparr>)"
    and p: "\<forall>pid. projectId v = Some pid \<and> pid \<noteq> [] \<and> findProject s pid \<noteq> None \<longrightarrow>
                 map_option stats (findProject s' pid)
                   = Some (Some (computeStats (projectVideos s' pid)))"
    by blast
  note out = onConfirmCancel_ok [OF assms(1,2) c]
  show "cancelAlert (onConfirmCancel ad integrations st w s) = False"
    unfolding out by simp
  show "cancelWorld (onConfirmCancel ad integrations st w s) = w'"
    unfolding out by simp
  show "getDoc (cancelStore (onConfirmCancel ad integrations st w s)) (videoId pv)
            = Some (v\<lparr>status := Approved, scheduledDate := None,
                      distributionConfig :=
                        Some (map stripExternalId
                                (case distributionConfig v of None \<Rightarrow> [] | Some cs \<Rightarrow> cs))\<rparr>)"
    unfolding out using g by simp
  show "\<forall>pid. projectId v = Some pid \<and> pid \<noteq> [] \<and> findProject s pid \<noteq> None \<longrightarrow>
              map_option stats
                (findProject (cancelStore (onConfirmCancel ad integrations st w s)) pid)
                = Some (Some (computeStats
                     (projectVideos (cancelStore (onConfirmCancel ad integrations st w s)) pid)))"
    unfolding out using p by simp
qed

text \<open>
  An adapter error other than not-found stops the operation before the local state is
  cleared: with a \<open>DELETE\<close> answered 500 the asset stays \<open>scheduled\<close>.
\<close>

lemma cancel_aborts_on_adapter_error:
  "onConfirmCancel (logAdapter 500) sampleIntegrations cancelView [] scheduledStore
     = \<lparr>cancelState = cancelView\<lparr>showCancelModal := False\<rparr>, cancelWorld = [''delete yt-1''],
        cancelStore = scheduledStore, cancelAlert = True\<rparr>"
proof -
  have "deleteRemote (logAdapter 500) sampleIntegrations scheduledVideo []
          = deleteVideoFromYouTube (logAdapter 500) [] ''tokA'' ''yt-1''"
    by (rule deleteRemote_single [OF scheduledVideo_simps(5)])
       (simp_all add: sampleConfig_simps sample_tokens)
  also have "\<dots> = (Inl (AdapterError (''Failed to delete from YouTube ('' @ showNat 500 @ ''): '' @ [])),
                     [''delete yt-1''])"
    by (rule delete_other_error [OF sample_fetchDelete]) simp_all
  finally show ?thesis
    by (rule onConfirmCancel_abort [OF cancelView_simps(1)])
qed

lemma cancel_not_found_is_success:
  "cancelAlert (onConfirmCancel (logAdapter 404) sampleIntegrations cancelView [] scheduledStore)
     = False
   \<and> map_option status
        (getDoc (cancelStore (onConfirmCancel (logAdapter 404) sampleIntegrations cancelView []
                    scheduledStore)) ''v3'') = Some Approved
   \<and> map_option scheduledDate
        (getDoc (cancelStore (onConfirmCancel (logAdapter 404) sampleIntegrations cancelView []
                    scheduledStore)) ''v3'') = Some None"
proof -
  have "deleteRemote (logAdapter 404) sampleIntegrations scheduledVideo []
          = deleteVideoFromYouTube (logAdapter 404) [] ''tokA'' ''yt-1''"
    by (rule deleteRemote_single [OF scheduledVideo_simps(5)])
       (simp_all add: sampleConfig_simps sample_tokens)
  also have "\<dots> = (Inr (), [''delete yt-1''])"
    by (rule delete_not_found [OF sample_fetchDelete])
  finally have d: "deleteRemote (logAdapter 404) sampleIntegrations scheduledVideo []
                     = (Inr (), [''delete yt-1''])" .
  have g: "getDoc scheduledStore (videoId scheduledVideo) = Some scheduledVideo"
    by (simp add: scheduledVideo_simps getDoc_scheduledStore)
  from cancel_clears_local_state(1,3) [OF cancelView_simps(1) d g]
  show ?thesis by (simp add: scheduledVideo_simps)
qed

text \<open>
  C3. The claim asks for a remote deletion for each configuration entry that carries an
  \<open>externalId\<close>. Take a scheduled asset that was published to two YouTube channels (remote
  ids \<open>yt-1\<close> and \<open>yt-2\<close>, both accounts with a token) and to Instagram, and a platform that
  answers every \<open>DELETE\<close> with 204. Cancelling sends a single \<open>DELETE\<close>, for \<open>yt-1\<close>; no
  error is reported, the asset becomes \<open>approved\<close> without \<open>scheduledDate\<close>, and the
  \<open>externalId\<close> of every entry is stripped, so the remote video \<open>yt-2\<close> stays scheduled
  and is no longer tracked.
\<close>

theorem cancel_schedule_deletes_one:
  "status twoChannelVideo = Scheduled
   \<and> map_option (map externalId) (distributionConfig twoChannelVideo)
       = Some [None, Some ''yt-1'', Some ''yt-2'']
   \<and> findToken sampleIntegrations ''acc3'' = Some ''tokB''
   \<and> cancelWorld (onConfirmCancel (logAdapter 204) sampleIntegrations twoChannelView []
        twoChannelStore)
       = [''delete yt-1'']
   \<and> cancelAlert (onConfirmCancel (logAdapter 204) sampleIntegrations twoChannelView []
        twoChannelStore)
       = False
   \<and> map_option status
        (getDoc (cancelStore (onConfirmCancel (logAdapter 204) sampleIntegrations twoChannelView []
                    twoChannelStore)) ''v3'')
       = Some Approved
   \<and> map_option scheduledDate
        (getDoc (cancelStore (onConfirmCancel (logAdapter 204) sampleIntegrations twoChannelView []
                    twoChannelStore)) ''v3'')
       = Some None
   \<and> map_option (map_option (map externalId) \<circ> distributionConfig)
        (getDoc (cancelStore (onConfirmCancel (logAdapter 204) sampleIntegrations twoChannelView []
                    twoChannelStore)) ''v3'')
       = Some (Some [None, None, None])"
proof -
  let ?out = "onConfirmCancel (logAdapter 204) sampleIntegrations twoChannelView [] twoChannelStore"
  have cfg: "distributionConfig twoChannelVideo
       = Some ([sampleConfig Instagram ''acc2'' Reel]
               @ (sampleConfig Youtube ''acc1'' Video)\<lparr>externalId := Some ''yt-1''\<rparr>
               # [(sampleConfig Youtube ''acc3'' Video)\<lparr>externalId := Some ''yt-2''\<rparr>])"
    by (simp add: twoChannel_simps)
  have "deleteRemote (logAdapter 204) sampleIntegrations twoChannelVideo []
          = deleteVideoFromYouTube (logAdapter 204) [] ''tokA'' ''yt-1''"
    by (rule deleteRemote_first_only [OF cfg])
       (simp_all add: sampleConfig_simps sample_tokens present_def)
  also have "\<dots> = (Inr (), [''delete yt-1''])"
    by (rule delete_ok [OF sample_fetchDelete]) simp_all
  finally have d: "deleteRemote (logAdapter 204) sampleIntegrations twoChannelVideo []
                     = (Inr (), [''delete yt-1''])" .
  have g: "getDoc twoChannelStore (videoId twoChannelVideo) = Some twoChannelVideo"
    by (simp add: twoChannel_simps)
  note ok = cancel_clears_local_state [OF twoChannel_simps(5) d g]
  have 1: "status twoChannelVideo = Scheduled" by (simp add: twoChannel_simps)
  have 2: "map_option (map externalId) (distributionConfig twoChannelVideo)
       = Some [None, Some ''yt-1'', Some ''yt-2'']"
    by (simp add: twoChannel_simps sampleConfig_simps)
  have 3: "findToken sampleIntegrations ''acc3'' = Some ''tokB''" by (rule sample_tokens(2))
  have 4: "cancelWorld ?out = [''delete yt-1'']" by (rule ok(2))
  have 5: "cancelAlert ?out = False" by (rule ok(1))
  have 6: "map_option status (getDoc (cancelStore ?out) ''v3'') = Some Approved"
    using ok(3) by (simp add: twoChannel_simps)
  have 7: "map_option scheduledDate (getDoc (cancelStore ?out) ''v3'') = Some None"
    using ok(3) by (simp add: twoChannel_simps)
  have 8: "map_option (map_option (map externalId) \<circ> distributionConfig)
             (getDoc (cancelStore ?out) ''v3'') = Some (Some [None, None, None])"
    using ok(3) by (simp add: twoChannel_simps stripExternalId_def)
  show ?thesis
    by (rule conjI [OF 1 conjI [OF 2 conjI [OF 3 conjI [OF 4 conjI [OF 5 conjI [OF 6
          conjI [OF 7 8]]]]]]])
qed

end
